theory Spec2Isabelle
  imports Complex_Main "HOL-Library.Multiset" "HOL-Library.Sublist"
begin

section \<open>The HR dashboard's data pipeline (app.py)\<close>

text \<open>
  The development embeds the data pipeline of \<^verbatim>\<open>app.py\<close>: the normalisation and
  derivation of \<^verbatim>\<open>prepare_df\<close>, the basic filter block, and the six KPI functions.
  A pandas DataFrame is a table: a dtype for every column it has, and its rows.
  What the pandas library does with a cell (parsing a number or a date out of text,
  printing an object) is not code of the repository; it enters as the record
  \<open>coercions\<close>, and every theorem holds for every such record.

  The pandas read here is that of its versions 1 and 2: text lives in columns of dtype
  object. Outside the model are boolean cells, time zones, the rounding and the
  infinities of float64, the letters beyond ASCII, and tables with two columns of one
  name.
\<close>

subsection \<open>Cells, columns, tables\<close>

text \<open>
  A pandas Timestamp, by its calendar fields; \<open>ts_nanos\<close> is the time of day in
  nanoseconds since midnight.
\<close>

record timestamp =
  ts_year :: int
  ts_month :: int
  ts_day :: int
  ts_nanos :: int

text \<open>
  A cell: \<open>Null\<close> is pandas' missing value (NaN, None, NaT); a number is a finite
  number (IEEE rounding and the infinities are outside the model).
\<close>

datatype cell = Null | Str string | Num real | Date timestamp

text \<open>
  The dtype of a column, as far as the code looks at it: \<open>ObjectT\<close> is what
  \<^verbatim>\<open>select_dtypes(include="object")\<close> selects and what the \<^verbatim>\<open>.str\<close> accessor accepts;
  \<open>FloatT\<close> stands for the numeric dtypes, \<open>DatetimeT\<close> for datetime64.
\<close>

datatype dtype = ObjectT | FloatT | DatetimeT

type_synonym row = "string \<Rightarrow> cell"

text \<open>
  \<open>dtypes t c = None\<close> says that column \<open>c\<close> is not in \<^verbatim>\<open>df.columns\<close>; a row is read
  only at columns the table has.
\<close>

record table =
  dtypes :: "string \<rightharpoonup> dtype"
  rows :: "row list"

text \<open>
  The exceptions of the modelled code. \<open>NotModelled\<close> is no Python exception: it marks
  an input on which pandas' behaviour is outside this model (a search pattern with
  regular-expression operators, a sum over text cells).
\<close>

datatype exn = AttributeError | TypeError | KeyError | NotModelled

record coercions =
  astype_str :: "cell \<Rightarrow> string"
  numeric_of_str :: "string \<Rightarrow> real option"
  datetime_of :: "cell \<Rightarrow> timestamp option"

definition has_col :: "table \<Rightarrow> string \<Rightarrow> bool" where
  "has_col t c = (dtypes t c \<noteq> None)"

text \<open>\<^verbatim>\<open>df[c] = ...\<close>: the column is replaced, or added when the table has none of that name.\<close>

definition assign :: "string \<Rightarrow> dtype \<Rightarrow> (row \<Rightarrow> cell) \<Rightarrow> table \<Rightarrow> table" where
  "assign c dt f t = \<lparr>dtypes = (dtypes t)(c \<mapsto> dt), rows = map (\<lambda>r. r(c := f r)) (rows t)\<rparr>"

subsection \<open>Column names\<close>

text \<open>The accented names are the UTF-8 bytes of the source's literals.\<close>

definition col_area :: string where
  "col_area = [CHR 0xC3, CHR 0x81] @ ''rea''"

definition col_nivel :: string where
  "col_nivel = ''N'' @ [CHR 0xC3, CHR 0xAD] @ ''vel''"

definition col_avaliacao :: string where
  "col_avaliacao = ''Avalia'' @ [CHR 0xC3, CHR 0xA7, CHR 0xC3, CHR 0xA3] @ ''o''"

definition DATE_COLS :: "string list" where
  "DATE_COLS = [''Data de Nascimento'', ''Data de Contratacao'', ''Data de Demissao'']"

definition CURRENCY_COLS :: "string list" where
  "CURRENCY_COLS = [''Salario Base'', ''Impostos'', ''Beneficios'', ''VT'', ''VR'']"

subsection \<open>Strings\<close>

text \<open>
  Strings are byte strings; case mapping and white space are those of ASCII (the
  model covers ASCII text: Python also maps the letters beyond it).
\<close>

definition is_space :: "char \<Rightarrow> bool" where
  "is_space ch = (let n = (of_char ch :: nat) in (9 \<le> n \<and> n \<le> 13) \<or> (28 \<le> n \<and> n \<le> 32))"

definition strip :: "string \<Rightarrow> string" where
  "strip s = rev (dropWhile is_space (rev (dropWhile is_space s)))"

definition ascii_lower :: string where
  "ascii_lower = ''abcdefghijklmnopqrstuvwxyz''"

definition ascii_upper :: string where
  "ascii_upper = ''ABCDEFGHIJKLMNOPQRSTUVWXYZ''"

definition upper_chr :: "char \<Rightarrow> char" where
  "upper_chr ch = (case map_of (zip ascii_lower ascii_upper) ch of Some u \<Rightarrow> u | None \<Rightarrow> ch)"

definition lower_chr :: "char \<Rightarrow> char" where
  "lower_chr ch = (case map_of (zip ascii_upper ascii_lower) ch of Some l \<Rightarrow> l | None \<Rightarrow> ch)"

subsection \<open>Dates\<close>

text \<open>Days since 1970-01-01 of a proleptic Gregorian date.\<close>

definition days_from_civil :: "int \<Rightarrow> int \<Rightarrow> int \<Rightarrow> int" where
  "days_from_civil y m d =
     (let y' = (if m \<le> 2 then y - 1 else y);
          era = y' div 400;
          yoe = y' - era * 400;
          doy = (153 * (if m > 2 then m - 3 else m + 9) + 2) div 5 + d - 1;
          doe = yoe * 365 + yoe div 4 - yoe div 100 + doy
      in era * 146097 + doe - 719468)"

definition ns_per_day :: int where
  "ns_per_day = 86400 * 1000000000"

text \<open>The int64 a Timestamp is stored as: nanoseconds since the epoch.\<close>

definition epoch_ns :: "timestamp \<Rightarrow> int" where
  "epoch_ns ts = days_from_civil (ts_year ts) (ts_month ts) (ts_day ts) * ns_per_day + ts_nanos ts"

text \<open>A \<^verbatim>\<open>datetime.date\<close>, and \<^verbatim>\<open>pd.Timestamp(d)\<close> / \<^verbatim>\<open>pd.to_datetime(d)\<close>: midnight of that day.\<close>

type_synonym date = "int \<times> int \<times> int"

definition midnight :: "date \<Rightarrow> timestamp" where
  "midnight d = (case d of (y, m, dd) \<Rightarrow> \<lparr>ts_year = y, ts_month = m, ts_day = dd, ts_nanos = 0\<rparr>)"

subsection \<open>Field normalisation (prepare_df, lines 89-109)\<close>

text \<open>\<^verbatim>\<open>astype(str)\<close> on one cell: a string is itself, anything else is printed by Python.\<close>

definition py_str :: "coercions \<Rightarrow> cell \<Rightarrow> string" where
  "py_str env x = (case x of Str s \<Rightarrow> s | _ \<Rightarrow> astype_str env x)"

text \<open>
  \<^verbatim>\<open>for c in df.select_dtypes(include="object").columns: df[c] = df[c].astype(str).str.strip()\<close>.
  Every step of the loop writes its own column only, so the loop is one pass over the rows.
\<close>

definition strip_text :: "coercions \<Rightarrow> table \<Rightarrow> table" where
  "strip_text env t =
     t\<lparr>rows := map (\<lambda>r c. if dtypes t c = Some ObjectT then Str (strip (py_str env (r c))) else r c)
                    (rows t)\<rparr>"

text \<open>\<^verbatim>\<open>pd.to_datetime(..., dayfirst=True, errors="coerce")\<close> on one cell: what does not parse is NaT.\<close>

definition to_datetime :: "coercions \<Rightarrow> cell \<Rightarrow> cell" where
  "to_datetime env x =
     (case x of
        Null \<Rightarrow> Null
      | Date d \<Rightarrow> Date d
      | _ \<Rightarrow> (case datetime_of env x of None \<Rightarrow> Null | Some d \<Rightarrow> Date d))"

definition parse_date_col :: "coercions \<Rightarrow> string \<Rightarrow> table \<Rightarrow> table" where
  "parse_date_col env c t =
     (if has_col t c then assign c DatetimeT (\<lambda>r. to_datetime env (r c)) t else t)"

definition parse_dates :: "coercions \<Rightarrow> table \<Rightarrow> table" where
  "parse_dates env t = fold (parse_date_col env) DATE_COLS t"

text \<open>
  \<^verbatim>\<open>.str.upper()\<close> and \<^verbatim>\<open>.replace({"MASCULINO": "M", "FEMININO": "F"})\<close> on one cell; a cell that
  is no string comes out of a \<^verbatim>\<open>.str\<close> method as NaN.
\<close>

definition str_upper :: "cell \<Rightarrow> cell" where
  "str_upper x = (case x of Str s \<Rightarrow> Str (map upper_chr s) | _ \<Rightarrow> Null)"

definition replace_sexo :: "cell \<Rightarrow> cell" where
  "replace_sexo x =
     (if x = Str ''MASCULINO'' then Str ''M'' else if x = Str ''FEMININO'' then Str ''F'' else x)"

text \<open>
  The \<^verbatim>\<open>.str\<close> accessor raises AttributeError on a column that is not of dtype object;
  the code guards the presence of the column, not its dtype.
\<close>

definition normalize_sexo :: "table \<Rightarrow> exn + table" where
  "normalize_sexo t =
     (if has_col t ''Sexo'' then
        (if dtypes t ''Sexo'' = Some ObjectT
         then Inr (assign ''Sexo'' ObjectT (\<lambda>r. replace_sexo (str_upper (r ''Sexo''))) t)
         else Inl AttributeError)
      else Inr t)"

text \<open>
  \<^verbatim>\<open>pd.to_numeric(..., errors="coerce")\<close> on one cell: a number is kept, text is parsed or
  becomes NaN, a Timestamp is its int64. \<^verbatim>\<open>fillna(0.0)\<close> then replaces NaN.
\<close>

definition to_numeric :: "coercions \<Rightarrow> cell \<Rightarrow> cell" where
  "to_numeric env x =
     (case x of
        Null \<Rightarrow> Null
      | Num v \<Rightarrow> Num v
      | Str s \<Rightarrow> (case numeric_of_str env s of None \<Rightarrow> Null | Some v \<Rightarrow> Num v)
      | Date d \<Rightarrow> Num (of_int (epoch_ns d)))"

definition fillna :: "real \<Rightarrow> cell \<Rightarrow> cell" where
  "fillna v x = (case x of Null \<Rightarrow> Num v | _ \<Rightarrow> x)"

definition ensure_numeric_col :: "coercions \<Rightarrow> string \<Rightarrow> table \<Rightarrow> table" where
  "ensure_numeric_col env c t =
     (let t1 = (if \<not> has_col t c then assign c FloatT (\<lambda>r. Num 0) t else t)
      in assign c FloatT (\<lambda>r. fillna 0 (to_numeric env (r c))) t1)"

definition ensure_numeric :: "coercions \<Rightarrow> table \<Rightarrow> table" where
  "ensure_numeric env t = fold (ensure_numeric_col env) CURRENCY_COLS t"

text \<open>The normaliser: lines 89 to 109, in the order of the source.\<close>

definition normalize_fields :: "coercions \<Rightarrow> table \<Rightarrow> exn + table" where
  "normalize_fields env t =
     (case normalize_sexo (parse_dates env (strip_text env t)) of
        Inl e \<Rightarrow> Inl e
      | Inr t1 \<Rightarrow> Inr (ensure_numeric env t1))"

subsection \<open>Derived columns (prepare_df, lines 111-128)\<close>

text \<open>
  \<^verbatim>\<open>((today - df["Data de Nascimento"]).dt.days // 365).clip(lower=0)\<close>: the days of a
  Timedelta are its nanoseconds floor-divided by a day; NaT gives NaN.
\<close>

definition idade_cell :: "timestamp \<Rightarrow> cell \<Rightarrow> cell" where
  "idade_cell today x =
     (case x of
        Date d \<Rightarrow> Num (of_int (max 0 (((epoch_ns today - epoch_ns d) div ns_per_day) div 365)))
      | _ \<Rightarrow> Null)"

text \<open>
  \<^verbatim>\<open>meses = (today.year - col.dt.year) * 12 + (today.month - col.dt.month)\<close>, then
  \<^verbatim>\<open>meses.clip(lower=0)\<close>.
\<close>

definition meses_cell :: "timestamp \<Rightarrow> cell \<Rightarrow> cell" where
  "meses_cell today x =
     (case x of
        Date d \<Rightarrow> Num (of_int (max 0 ((ts_year today - ts_year d) * 12 + (ts_month today - ts_month d))))
      | _ \<Rightarrow> Null)"

text \<open>\<^verbatim>\<open>np.where(df["Data de Demissao"].notna(), "Desligado", "Ativo")\<close>.\<close>

definition status_cell :: "cell \<Rightarrow> cell" where
  "status_cell x = (if x \<noteq> Null then Str ''Desligado'' else Str ''Ativo'')"

text \<open>A number of a row-wise \<^verbatim>\<open>sum(axis=1)\<close>: NaN is skipped.\<close>

definition num_or_zero :: "cell \<Rightarrow> real" where
  "num_or_zero x = (case x of Num v \<Rightarrow> v | _ \<Rightarrow> 0)"

definition custo_cell :: "row \<Rightarrow> cell" where
  "custo_cell r = Num (sum_list (map (\<lambda>c. num_or_zero (r c)) CURRENCY_COLS))"

definition derive :: "date \<Rightarrow> table \<Rightarrow> table" where
  "derive clock t =
     (let today = midnight clock;
          t1 = (if has_col t ''Data de Nascimento''
                then assign ''Idade'' FloatT (\<lambda>r. idade_cell today (r ''Data de Nascimento'')) t
                else t);
          t2 = (if has_col t1 ''Data de Contratacao''
                then assign ''Tempo de Casa (meses)'' FloatT
                       (\<lambda>r. meses_cell today (r ''Data de Contratacao'')) t1
                else t1);
          t3 = (if has_col t2 ''Data de Demissao''
                then assign ''Status'' ObjectT (\<lambda>r. status_cell (r ''Data de Demissao'')) t2
                else assign ''Status'' ObjectT (\<lambda>r. Str ''Ativo'') t2)
      in assign ''Custo Total Mensal'' FloatT custo_cell t3)"

text \<open>
  \<^verbatim>\<open>prepare_df(df)\<close>. The source has no date argument: line 112 reads
  \<^verbatim>\<open>date.today()\<close> from the system clock, and \<open>clock\<close> is the date the clock shows
  when the function runs.
\<close>

definition prepare_df :: "coercions \<Rightarrow> date \<Rightarrow> table \<Rightarrow> exn + table" where
  "prepare_df env clock t =
     (case normalize_fields env t of
        Inl e \<Rightarrow> Inl e
      | Inr t1 \<Rightarrow> Inr (derive clock t1))"

subsection \<open>The search pattern of the name filter\<close>

text \<open>
  \<^verbatim>\<open>Series.str.contains(pat, case=False, na=False)\<close> leaves \<^verbatim>\<open>regex\<close> at its default
  \<^verbatim>\<open>True\<close>: pandas compiles \<open>pat\<close> as a regular expression with \<^verbatim>\<open>re.IGNORECASE\<close> and
  searches every string for a match. The model covers the patterns made of ordinary
  characters and the wildcard \<^verbatim>\<open>.\<close> (any character but a newline); a pattern with
  another operator of \<^verbatim>\<open>re\<close> is outside of it.
\<close>

datatype atom = Lit char | AnyChar

definition re_operators :: string where
  "re_operators = ''^$*+?{}[]()|'' @ [CHR 0x5C]"

fun re_compile :: "string \<Rightarrow> exn + atom list" where
  "re_compile [] = Inr []"
| "re_compile (ch # cs) =
     (if ch \<in> set re_operators then Inl NotModelled
      else (case re_compile cs of
              Inl e \<Rightarrow> Inl e
            | Inr as \<Rightarrow> Inr ((if ch = CHR ''.'' then AnyChar else Lit ch) # as)))"

fun atom_matches :: "atom \<Rightarrow> char \<Rightarrow> bool" where
  "atom_matches (Lit p) ch = (lower_chr p = lower_chr ch)"
| "atom_matches AnyChar ch = (ch \<noteq> CHR 0x0A)"

fun match_here :: "atom list \<Rightarrow> string \<Rightarrow> bool" where
  "match_here [] s = True"
| "match_here (a # as) [] = False"
| "match_here (a # as) (ch # s) = (atom_matches a ch \<and> match_here as s)"

fun re_search :: "atom list \<Rightarrow> string \<Rightarrow> bool" where
  "re_search as [] = match_here as []"
| "re_search as (ch # s) = (match_here as (ch # s) \<or> re_search as s)"

text \<open>One cell of the mask: with \<^verbatim>\<open>na=False\<close> a cell that is no string does not match.\<close>

definition str_contains :: "atom list \<Rightarrow> cell \<Rightarrow> bool" where
  "str_contains re x = (case x of Str s \<Rightarrow> re_search re s | _ \<Rightarrow> False)"

text \<open>
  \<^verbatim>\<open>df[df[c].str.contains(pat, case=False, na=False)]\<close> on a column the table has: the
  accessor checks the dtype, then the pattern is compiled, then the rows are selected.
\<close>

definition contains_rows :: "string \<Rightarrow> string \<Rightarrow> table \<Rightarrow> exn + table" where
  "contains_rows c pat t =
     (if dtypes t c \<noteq> Some ObjectT then Inl AttributeError
      else (case re_compile pat of
              Inl e \<Rightarrow> Inl e
            | Inr re \<Rightarrow> Inr (t\<lparr>rows := filter (\<lambda>r. str_contains re (r c)) (rows t)\<rparr>)))"

text \<open>
  The spec's words for the name filter, "case-insensitive substring match": the
  search text, lower-cased, occurs as a contiguous part of the lower-cased name.
\<close>

definition ci_substring :: "string \<Rightarrow> string \<Rightarrow> bool" where
  "ci_substring pat s = sublist (map lower_chr pat) (map lower_chr s)"

subsection \<open>The filters (lines 211-291)\<close>

text \<open>
  What the sidebar hands to the filter block. A multiselect gives the list of the
  chosen values; the text input gives a string; a slider or a date input gives a pair,
  and \<open>None\<close> stands for the source's \<^verbatim>\<open>None\<close> (no widget was drawn).
\<close>

record criteria =
  area_sel :: "cell list"
  nivel_sel :: "cell list"
  cargo_sel :: "cell list"
  sexo_sel :: "cell list"
  status_sel :: "cell list"
  nome_busca :: string
  faixa_idade :: "(real \<times> real) option"
  faixa_sal :: "(real \<times> real) option"
  periodo_contratacao :: "(date \<times> date) option"
  periodo_demissao :: "(date \<times> date) option"

text \<open>
  \<^verbatim>\<open>msel\<close>: the options of a multiselect are the distinct non-null values of the column
  (the source sorts them for display), and the user's choice is a sublist of the options.
\<close>

definition msel :: "table \<Rightarrow> string \<Rightarrow> cell list" where
  "msel t c = (if has_col t c then remdups (filter (\<lambda>v. v \<noteq> Null) (map (\<lambda>r. r c) (rows t))) else [])"

definition apply_in :: "table \<Rightarrow> string \<Rightarrow> cell list \<Rightarrow> table" where
  "apply_in t c vals =
     (if vals \<noteq> [] \<and> has_col t c then t\<lparr>rows := filter (\<lambda>r. r c \<in> set vals) (rows t)\<rparr> else t)"

text \<open>
  A boolean mask is computed for the whole column before the rows are selected, so an
  exception at one cell is the exception of the step.
\<close>

fun filter_rows :: "(row \<Rightarrow> exn + bool) \<Rightarrow> row list \<Rightarrow> exn + row list" where
  "filter_rows p [] = Inr []"
| "filter_rows p (r # rs) =
     (case p r of
        Inl e \<Rightarrow> Inl e
      | Inr b \<Rightarrow> (case filter_rows p rs of
                    Inl e \<Rightarrow> Inl e
                  | Inr rs' \<Rightarrow> Inr (if b then r # rs' else rs')))"

text \<open>
  \<^verbatim>\<open>(col >= lo) & (col <= hi)\<close> at one cell: NaN compares false; text or a Timestamp
  against a number raises TypeError.
\<close>

definition in_range :: "real \<Rightarrow> real \<Rightarrow> cell \<Rightarrow> exn + bool" where
  "in_range lo hi x =
     (case x of
        Num v \<Rightarrow> Inr (lo \<le> v \<and> v \<le> hi)
      | Null \<Rightarrow> Inr False
      | _ \<Rightarrow> Inl TypeError)"

text \<open>
  \<^verbatim>\<open>col.isna() | ((col >= pd.to_datetime(a)) & (col <= pd.to_datetime(b)))\<close> at one cell;
  Timestamps compare as their int64.
\<close>

definition in_period :: "date \<Rightarrow> date \<Rightarrow> cell \<Rightarrow> exn + bool" where
  "in_period a b x =
     (case x of
        Null \<Rightarrow> Inr True
      | Date d \<Rightarrow> Inr (epoch_ns (midnight a) \<le> epoch_ns d \<and> epoch_ns d \<le> epoch_ns (midnight b))
      | _ \<Rightarrow> Inl TypeError)"

definition mask_rows :: "string \<Rightarrow> (cell \<Rightarrow> exn + bool) \<Rightarrow> table \<Rightarrow> exn + table" where
  "mask_rows c p t =
     (case filter_rows (\<lambda>r. p (r c)) (rows t) of
        Inl e \<Rightarrow> Inl e
      | Inr rs \<Rightarrow> Inr (t\<lparr>rows := rs\<rparr>))"

datatype filter_step =
  FArea | FNivel | FCargo | FSexo | FStatus | FNome | FIdade | FSalario | FContratacao | FDemissao

text \<open>One step of lines 268 to 291, with its guard.\<close>

fun apply_step :: "criteria \<Rightarrow> filter_step \<Rightarrow> table \<Rightarrow> exn + table" where
  "apply_step q FArea t = Inr (apply_in t col_area (area_sel q))"
| "apply_step q FNivel t = Inr (apply_in t col_nivel (nivel_sel q))"
| "apply_step q FCargo t = Inr (apply_in t ''Cargo'' (cargo_sel q))"
| "apply_step q FSexo t = Inr (apply_in t ''Sexo'' (sexo_sel q))"
| "apply_step q FStatus t = Inr (apply_in t ''Status'' (status_sel q))"
| "apply_step q FNome t =
     (if nome_busca q \<noteq> [] \<and> has_col t ''Nome Completo''
      then contains_rows ''Nome Completo'' (nome_busca q) t else Inr t)"
| "apply_step q FIdade t =
     (case faixa_idade q of
        Some (lo, hi) \<Rightarrow> if has_col t ''Idade'' then mask_rows ''Idade'' (in_range lo hi) t else Inr t
      | None \<Rightarrow> Inr t)"
| "apply_step q FSalario t =
     (case faixa_sal q of
        Some (lo, hi) \<Rightarrow>
          if has_col t ''Salario Base'' then mask_rows ''Salario Base'' (in_range lo hi) t else Inr t
      | None \<Rightarrow> Inr t)"
| "apply_step q FContratacao t =
     (case periodo_contratacao q of
        Some (a, b) \<Rightarrow>
          if has_col t ''Data de Contratacao''
          then mask_rows ''Data de Contratacao'' (in_period a b) t else Inr t
      | None \<Rightarrow> Inr t)"
| "apply_step q FDemissao t =
     (case periodo_demissao q of
        Some (a, b) \<Rightarrow>
          if has_col t ''Data de Demissao''
          then mask_rows ''Data de Demissao'' (in_period a b) t else Inr t
      | None \<Rightarrow> Inr t)"

fun run_filters :: "criteria \<Rightarrow> filter_step list \<Rightarrow> table \<Rightarrow> exn + table" where
  "run_filters q [] t = Inr t"
| "run_filters q (s # ss) t =
     (case apply_step q s t of
        Inl e \<Rightarrow> Inl e
      | Inr t' \<Rightarrow> run_filters q ss t')"

definition source_order :: "filter_step list" where
  "source_order =
     [FArea, FNivel, FCargo, FSexo, FStatus, FNome, FIdade, FSalario, FContratacao, FDemissao]"

text \<open>\<^verbatim>\<open>df_f\<close> after line 291: the steps in the order of the source.\<close>

definition apply_filters :: "criteria \<Rightarrow> table \<Rightarrow> exn + table" where
  "apply_filters q t = run_filters q source_order t"

text \<open>
  The name step of the second filter block (lines 372-373) has no guard on the column:
  \<^verbatim>\<open>filtered_df["Nome Completo"]\<close> raises KeyError when the table has no such column.
\<close>

definition nome_filtrado_step :: "string \<Rightarrow> table \<Rightarrow> exn + table" where
  "nome_filtrado_step pat t =
     (if pat \<noteq> [] then
        (if has_col t ''Nome Completo'' then contains_rows ''Nome Completo'' pat t else Inl KeyError)
      else Inr t)"

text \<open>The column a step reads, whether the sidebar made it active, and what it selects.\<close>

fun step_col :: "filter_step \<Rightarrow> string" where
  "step_col FArea = col_area"
| "step_col FNivel = col_nivel"
| "step_col FCargo = ''Cargo''"
| "step_col FSexo = ''Sexo''"
| "step_col FStatus = ''Status''"
| "step_col FNome = ''Nome Completo''"
| "step_col FIdade = ''Idade''"
| "step_col FSalario = ''Salario Base''"
| "step_col FContratacao = ''Data de Contratacao''"
| "step_col FDemissao = ''Data de Demissao''"

fun step_active :: "criteria \<Rightarrow> filter_step \<Rightarrow> bool" where
  "step_active q FArea = (area_sel q \<noteq> [])"
| "step_active q FNivel = (nivel_sel q \<noteq> [])"
| "step_active q FCargo = (cargo_sel q \<noteq> [])"
| "step_active q FSexo = (sexo_sel q \<noteq> [])"
| "step_active q FStatus = (status_sel q \<noteq> [])"
| "step_active q FNome = (nome_busca q \<noteq> [])"
| "step_active q FIdade = (faixa_idade q \<noteq> None)"
| "step_active q FSalario = (faixa_sal q \<noteq> None)"
| "step_active q FContratacao = (periodo_contratacao q \<noteq> None)"
| "step_active q FDemissao = (periodo_demissao q \<noteq> None)"

fun step_values :: "criteria \<Rightarrow> filter_step \<Rightarrow> cell list" where
  "step_values q FArea = area_sel q"
| "step_values q FNivel = nivel_sel q"
| "step_values q FCargo = cargo_sel q"
| "step_values q FSexo = sexo_sel q"
| "step_values q FStatus = status_sel q"
| "step_values q s = []"

fun is_date_step :: "filter_step \<Rightarrow> bool" where
  "is_date_step FContratacao = True"
| "is_date_step FDemissao = True"
| "is_date_step s = False"

text \<open>The cells the comparisons of the range steps accept.\<close>

definition numeric_cell :: "cell \<Rightarrow> bool" where
  "numeric_cell x = (case x of Null \<Rightarrow> True | Num v \<Rightarrow> True | _ \<Rightarrow> False)"

definition date_cell :: "cell \<Rightarrow> bool" where
  "date_cell x = (case x of Null \<Rightarrow> True | Date d \<Rightarrow> True | _ \<Rightarrow> False)"

definition numeric_col :: "table \<Rightarrow> string \<Rightarrow> bool" where
  "numeric_col t c = (has_col t c \<longrightarrow> (\<forall>r \<in> set (rows t). numeric_cell (r c)))"



subsection \<open>The KPI functions (lines 141-169)\<close>

definition k_headcount_ativo :: "table \<Rightarrow> int" where
  "k_headcount_ativo t =
     (if has_col t ''Status'' then int (length (filter (\<lambda>r. r ''Status'' = Str ''Ativo'') (rows t))) else 0)"

definition k_desligados :: "table \<Rightarrow> int" where
  "k_desligados t =
     (if has_col t ''Status'' then int (length (filter (\<lambda>r. r ''Status'' = Str ''Desligado'') (rows t)))
      else 0)"

text \<open>The numbers of a column, nulls skipped; \<open>None\<close> when a cell is text or a Timestamp.\<close>

fun numbers :: "cell list \<Rightarrow> real list option" where
  "numbers [] = Some []"
| "numbers (x # xs) =
     (case x of
        Null \<Rightarrow> numbers xs
      | Num v \<Rightarrow> (case numbers xs of None \<Rightarrow> None | Some vs \<Rightarrow> Some (v # vs))
      | _ \<Rightarrow> None)"

text \<open>
  \<^verbatim>\<open>float(series.sum())\<close>: NaN is skipped and the empty sum is 0. Over text pandas
  concatenates, and \<^verbatim>\<open>float\<close> parses the result or raises: that is outside the model.
\<close>

definition series_sum :: "cell list \<Rightarrow> exn + real" where
  "series_sum xs = (case numbers xs of None \<Rightarrow> Inl NotModelled | Some vs \<Rightarrow> Inr (sum_list vs))"

text \<open>
  \<^verbatim>\<open>float(series.mean())\<close>: the mean of the non-null numbers, NaN (here \<open>None\<close>) when
  there is none; TypeError when a cell is text or a Timestamp (pandas 2).
\<close>

definition series_mean :: "cell list \<Rightarrow> exn + real option" where
  "series_mean xs =
     (case numbers xs of
        None \<Rightarrow> Inl TypeError
      | Some vs \<Rightarrow> Inr (if vs = [] then None else Some (sum_list vs / real (length vs))))"

definition dropna :: "cell list \<Rightarrow> cell list" where
  "dropna xs = filter (\<lambda>x. x \<noteq> Null) xs"

definition col_of :: "table \<Rightarrow> string \<Rightarrow> cell list" where
  "col_of t c = map (\<lambda>r. r c) (rows t)"

definition ativos :: "table \<Rightarrow> table" where
  "ativos t = t\<lparr>rows := filter (\<lambda>r. r ''Status'' = Str ''Ativo'') (rows t)\<rparr>"

definition k_folha :: "table \<Rightarrow> exn + real" where
  "k_folha t =
     (if has_col t ''Salario Base'' \<and> has_col t ''Status''
      then series_sum (col_of (ativos t) ''Salario Base'') else Inr 0)"

definition k_custo_total :: "table \<Rightarrow> exn + real" where
  "k_custo_total t =
     (if has_col t ''Custo Total Mensal'' \<and> has_col t ''Status''
      then series_sum (col_of (ativos t) ''Custo Total Mensal'') else Inr 0)"

definition k_idade_media :: "table \<Rightarrow> exn + real option" where
  "k_idade_media t =
     (if has_col t ''Idade'' \<and> dropna (col_of t ''Idade'') \<noteq> []
      then series_mean (col_of t ''Idade'') else Inr (Some 0))"

definition k_avaliacao_media :: "table \<Rightarrow> exn + real option" where
  "k_avaliacao_media t =
     (if has_col t col_avaliacao \<and> dropna (col_of t col_avaliacao) \<noteq> []
      then series_mean (col_of t col_avaliacao) else Inr (Some 0))"

subsection \<open>Auxiliary definitions for the statements\<close>

text \<open>A cell as the text step (line 91) leaves it: stripped text in an object column.\<close>

definition text_cell :: "coercions \<Rightarrow> table \<Rightarrow> row \<Rightarrow> string \<Rightarrow> cell" where
  "text_cell env t r c = (if dtypes t c = Some ObjectT then Str (strip (py_str env (r c))) else r c)"

text \<open>One column of the table a run returns, or the exception of the run.\<close>

definition result_col :: "exn + table \<Rightarrow> string \<Rightarrow> exn + cell list" where
  "result_col res c = (case res of Inl e \<Rightarrow> Inl e | Inr t \<Rightarrow> Inr (col_of t c))"

text \<open>
  The rows a step keeps when it returns: its guard and its mask, read off the source
  line by line. A step looks at the table's columns only through their presence.
\<close>

fun keeps :: "criteria \<Rightarrow> (string \<rightharpoonup> dtype) \<Rightarrow> filter_step \<Rightarrow> row \<Rightarrow> bool" where
  "keeps q cols FArea r = (area_sel q \<noteq> [] \<and> cols col_area \<noteq> None \<longrightarrow> r col_area \<in> set (area_sel q))"
| "keeps q cols FNivel r = (nivel_sel q \<noteq> [] \<and> cols col_nivel \<noteq> None \<longrightarrow> r col_nivel \<in> set (nivel_sel q))"
| "keeps q cols FCargo r = (cargo_sel q \<noteq> [] \<and> cols ''Cargo'' \<noteq> None \<longrightarrow> r ''Cargo'' \<in> set (cargo_sel q))"
| "keeps q cols FSexo r = (sexo_sel q \<noteq> [] \<and> cols ''Sexo'' \<noteq> None \<longrightarrow> r ''Sexo'' \<in> set (sexo_sel q))"
| "keeps q cols FStatus r = (status_sel q \<noteq> [] \<and> cols ''Status'' \<noteq> None \<longrightarrow> r ''Status'' \<in> set (status_sel q))"
| "keeps q cols FNome r =
     (nome_busca q \<noteq> [] \<and> cols ''Nome Completo'' \<noteq> None \<longrightarrow>
      (case re_compile (nome_busca q) of Inl e \<Rightarrow> True | Inr re \<Rightarrow> str_contains re (r ''Nome Completo'')))"
| "keeps q cols FIdade r =
     (case faixa_idade q of
        Some (lo, hi) \<Rightarrow> cols ''Idade'' \<noteq> None \<longrightarrow> in_range lo hi (r ''Idade'') = Inr True
      | None \<Rightarrow> True)"
| "keeps q cols FSalario r =
     (case faixa_sal q of
        Some (lo, hi) \<Rightarrow> cols ''Salario Base'' \<noteq> None \<longrightarrow> in_range lo hi (r ''Salario Base'') = Inr True
      | None \<Rightarrow> True)"
| "keeps q cols FContratacao r =
     (case periodo_contratacao q of
        Some (a, b) \<Rightarrow>
          cols ''Data de Contratacao'' \<noteq> None \<longrightarrow> in_period a b (r ''Data de Contratacao'') = Inr True
      | None \<Rightarrow> True)"
| "keeps q cols FDemissao r =
     (case periodo_demissao q of
        Some (a, b) \<Rightarrow>
          cols ''Data de Demissao'' \<noteq> None \<longrightarrow> in_period a b (r ''Data de Demissao'') = Inr True
      | None \<Rightarrow> True)"

text \<open>A search text without an operator of \<^verbatim>\<open>re\<close>: ordinary characters only.\<close>

definition plain_text :: "string \<Rightarrow> bool" where
  "plain_text pat = (\<forall>ch \<in> set pat. ch \<noteq> CHR ''.'' \<and> ch \<notin> set re_operators)"

subsection \<open>Example inputs\<close>

text \<open>
  A stand-in for pandas' coercions, to evaluate the pipeline on examples: it reads
  unsigned decimal integers out of text, no date out of text, and prints every
  object as \<^verbatim>\<open>nan\<close>.
\<close>

fun digits_value :: "nat \<Rightarrow> string \<Rightarrow> nat option" where
  "digits_value acc [] = Some acc"
| "digits_value acc (ch # cs) =
     (case map_of (zip ''0123456789'' [0, 1, 2, 3, 4, 5, 6, 7, 8, 9]) ch of
        None \<Rightarrow> None
      | Some d \<Rightarrow> digits_value (10 * acc + d) cs)"

definition demo_env :: coercions where
  "demo_env =
     \<lparr>astype_str = (\<lambda>x. ''nan''),
      numeric_of_str = (\<lambda>s. if s = [] then None else map_option real (digits_value 0 s)),
      datetime_of = (\<lambda>x. None)\<rparr>"

definition blank :: row where
  "blank = (\<lambda>c. Null)"

text \<open>Two employees: one active, one terminated and with a salary cell that is no number.\<close>

definition ex_staff :: table where
  "ex_staff =
     \<lparr>dtypes = [''Nome Completo'' \<mapsto> ObjectT, ''Sexo'' \<mapsto> ObjectT, ''Salario Base'' \<mapsto> ObjectT,
                ''Impostos'' \<mapsto> FloatT, ''Data de Contratacao'' \<mapsto> DatetimeT,
                ''Data de Demissao'' \<mapsto> DatetimeT],
      rows =
        [blank(''Nome Completo'' := Str ''Ana Lima'', ''Sexo'' := Str '' feminino'',
               ''Salario Base'' := Str ''1000'', ''Impostos'' := Num 100,
               ''Data de Contratacao'' := Date (midnight (2020, 1, 15))),
         blank(''Nome Completo'' := Str ''Rui Paz'', ''Sexo'' := Str ''M'',
               ''Salario Base'' := Str ''abc'',
               ''Data de Demissao'' := Date (midnight (2023, 6, 30)))]\<rparr>"

text \<open>A sheet whose salary column holds a negative number.\<close>

definition ex_negative :: table where
  "ex_negative = \<lparr>dtypes = [''Salario Base'' \<mapsto> FloatT], rows = [blank(''Salario Base'' := Num (- 5))]\<rparr>"

text \<open>A sheet whose column Sexo holds numeric codes: pandas reads it as a numeric column.\<close>

definition ex_sexo_codes :: table where
  "ex_sexo_codes = \<lparr>dtypes = [''Sexo'' \<mapsto> FloatT], rows = [blank(''Sexo'' := Num 1)]\<rparr>"

text \<open>A sheet whose column Sexo has a header and no value: pandas reads a float column of NaN.\<close>

definition ex_sexo_blank :: table where
  "ex_sexo_blank =
     \<lparr>dtypes = [''Nome Completo'' \<mapsto> ObjectT, ''Sexo'' \<mapsto> FloatT],
      rows = [blank(''Nome Completo'' := Str ''Ana Lima'')]\<rparr>"

text \<open>A derived table of three employees; the third has no hire date and no age.\<close>

definition ex_derived :: table where
  "ex_derived =
     \<lparr>dtypes = [''Nome Completo'' \<mapsto> ObjectT, ''Status'' \<mapsto> ObjectT, ''Salario Base'' \<mapsto> FloatT,
                ''Idade'' \<mapsto> FloatT, ''Data de Contratacao'' \<mapsto> DatetimeT,
                ''Data de Demissao'' \<mapsto> DatetimeT],
      rows =
        [blank(''Nome Completo'' := Str ''Ana Lima'', ''Status'' := Str ''Ativo'',
               ''Salario Base'' := Num 1000, ''Idade'' := Num 30,
               ''Data de Contratacao'' := Date (midnight (2020, 1, 15))),
         blank(''Nome Completo'' := Str ''Rui Paz'', ''Status'' := Str ''Desligado'',
               ''Salario Base'' := Num 0,
               ''Data de Demissao'' := Date (midnight (2023, 6, 30))),
         blank(''Nome Completo'' := Str ''Mariana Sa'', ''Status'' := Str ''Ativo'',
               ''Salario Base'' := Num 1500)]\<rparr>"

text \<open>A table of one name, and a table without the name column.\<close>

definition ex_names :: table where
  "ex_names = \<lparr>dtypes = [''Nome Completo'' \<mapsto> ObjectT], rows = [blank(''Nome Completo'' := Str ''abc'')]\<rparr>"

definition ex_noname :: table where
  "ex_noname = \<lparr>dtypes = [''Cargo'' \<mapsto> ObjectT], rows = [blank(''Cargo'' := Str ''Dev'')]\<rparr>"

text \<open>The sidebar with nothing chosen, and with four filters set.\<close>

definition no_filters :: criteria where
  "no_filters =
     \<lparr>area_sel = [], nivel_sel = [], cargo_sel = [], sexo_sel = [], status_sel = [],
      nome_busca = [], faixa_idade = None, faixa_sal = None,
      periodo_contratacao = None, periodo_demissao = None\<rparr>"

definition ex_criteria :: criteria where
  "ex_criteria =
     no_filters\<lparr>status_sel := [Str ''Ativo''], nome_busca := ''ana'', faixa_sal := Some (500, 2000),
                periodo_contratacao := Some ((2019, 1, 1), (2020, 12, 31))\<rparr>"

text \<open>A sheet whose rating column holds text.\<close>

definition ex_rating_text :: table where
  "ex_rating_text = \<lparr>dtypes = [col_avaliacao \<mapsto> ObjectT], rows = [blank(col_avaliacao := Str ''x'')]\<rparr>"

section \<open>Properties\<close>

subsection \<open>What each step of prepare_df does to a cell\<close>

lemma rows_assign: "rows (assign c dt f t) = map (\<lambda>r. r(c := f r)) (rows t)"
  by (simp add: assign_def)

lemma dtypes_assign: "dtypes (assign c dt f t) = (dtypes t)(c \<mapsto> dt)"
  by (simp add: assign_def)

lemma has_col_assign: "has_col (assign c dt f t) c' = (c' = c \<or> has_col t c')"
  by (simp add: has_col_def assign_def)

lemma length_assign: "length (rows (assign c dt f t)) = length (rows t)"
  by (simp add: assign_def)

lemma nth_assign:
  "i < length (rows t) \<Longrightarrow> (rows (assign c dt f t) ! i) c' = (if c' = c then f (rows t ! i) else (rows t ! i) c')"
  by (simp add: assign_def)

lemma dtypes_strip_text: "dtypes (strip_text env t) = dtypes t"
  by (simp add: strip_text_def)

lemma has_col_strip_text: "has_col (strip_text env t) c = has_col t c"
  by (simp add: has_col_def strip_text_def)

lemma length_strip_text: "length (rows (strip_text env t)) = length (rows t)"
  by (simp add: strip_text_def)

lemma nth_strip_text:
  "i < length (rows t) \<Longrightarrow> (rows (strip_text env t) ! i) c = text_cell env t (rows t ! i) c"
  by (simp add: strip_text_def text_cell_def)

text \<open>The date step.\<close>

lemma has_col_parse_date_col: "has_col (parse_date_col env c t) c' = has_col t c'"
  by (auto simp: parse_date_col_def has_col_assign)

lemma length_parse_date_col: "length (rows (parse_date_col env c t)) = length (rows t)"
  by (simp add: parse_date_col_def length_assign)

lemma nth_parse_date_col:
  "i < length (rows t) \<Longrightarrow>
   (rows (parse_date_col env c t) ! i) c' =
     (if c' = c \<and> has_col t c then to_datetime env ((rows t ! i) c) else (rows t ! i) c')"
  by (simp add: parse_date_col_def nth_assign)

lemma dtypes_parse_date_col:
  "dtypes (parse_date_col env c t) c' = (if c' = c \<and> has_col t c then Some DatetimeT else dtypes t c')"
  by (simp add: parse_date_col_def dtypes_assign)

lemma has_col_parse_dates: "has_col (parse_dates env t) c = has_col t c"
  by (simp add: parse_dates_def DATE_COLS_def has_col_parse_date_col)

lemma length_parse_dates: "length (rows (parse_dates env t)) = length (rows t)"
  by (simp add: parse_dates_def DATE_COLS_def length_parse_date_col)

lemma nth_parse_dates:
  "i < length (rows t) \<Longrightarrow>
   (rows (parse_dates env t) ! i) c =
     (if c \<in> set DATE_COLS \<and> has_col t c then to_datetime env ((rows t ! i) c) else (rows t ! i) c)"
  by (auto simp: parse_dates_def DATE_COLS_def nth_parse_date_col length_parse_date_col
      has_col_parse_date_col)

lemma dtypes_parse_dates:
  "dtypes (parse_dates env t) c =
     (if c \<in> set DATE_COLS \<and> has_col t c then Some DatetimeT else dtypes t c)"
  by (auto simp: parse_dates_def DATE_COLS_def dtypes_parse_date_col has_col_parse_date_col)

text \<open>The step on the column Sexo.\<close>

lemma normalize_sexo_Inr:
  "normalize_sexo t = Inr t' \<Longrightarrow>
     length (rows t') = length (rows t) \<and> (\<forall>c. has_col t' c = has_col t c)"
  by (auto simp: normalize_sexo_def length_assign has_col_assign split: if_splits)

lemma nth_normalize_sexo:
  "normalize_sexo t = Inr t' \<Longrightarrow> i < length (rows t) \<Longrightarrow>
   (rows t' ! i) c =
     (if c = ''Sexo'' \<and> has_col t ''Sexo'' then replace_sexo (str_upper ((rows t ! i) ''Sexo''))
      else (rows t ! i) c)"
  by (auto simp: normalize_sexo_def nth_assign split: if_splits)

lemma dtypes_normalize_sexo:
  "normalize_sexo t = Inr t' \<Longrightarrow> dtypes t' = dtypes t"
  by (auto simp: normalize_sexo_def dtypes_assign split: if_splits)

lemma normalize_sexo_Inl:
  "normalize_sexo t = Inl e \<longleftrightarrow> (e = AttributeError \<and> has_col t ''Sexo'' \<and> dtypes t ''Sexo'' \<noteq> Some ObjectT)"
  by (auto simp: normalize_sexo_def)

text \<open>The currency step.\<close>

lemma fillna_to_numeric_zero: "fillna 0 (to_numeric env (Num 0)) = Num 0"
  by (simp add: fillna_def to_numeric_def)

lemma length_ensure_numeric_col: "length (rows (ensure_numeric_col env c t)) = length (rows t)"
  by (simp add: ensure_numeric_col_def Let_def length_assign)

lemma has_col_ensure_numeric_col: "has_col (ensure_numeric_col env c t) c' = (c' = c \<or> has_col t c')"
  by (auto simp: ensure_numeric_col_def Let_def has_col_assign)

lemma dtypes_ensure_numeric_col: "dtypes (ensure_numeric_col env c t) = (dtypes t)(c \<mapsto> FloatT)"
  by (simp add: ensure_numeric_col_def Let_def dtypes_assign)

lemma nth_ensure_numeric_col:
  "i < length (rows t) \<Longrightarrow>
   (rows (ensure_numeric_col env c t) ! i) c' =
     (if c' = c then (if has_col t c then fillna 0 (to_numeric env ((rows t ! i) c)) else Num 0)
      else (rows t ! i) c')"
  by (simp add: ensure_numeric_col_def Let_def nth_assign length_assign fillna_to_numeric_zero)

lemma length_ensure_numeric: "length (rows (ensure_numeric env t)) = length (rows t)"
  by (simp add: ensure_numeric_def CURRENCY_COLS_def length_ensure_numeric_col)

lemma has_col_ensure_numeric:
  "has_col (ensure_numeric env t) c = (c \<in> set CURRENCY_COLS \<or> has_col t c)"
  by (auto simp: ensure_numeric_def CURRENCY_COLS_def has_col_ensure_numeric_col)

lemma dtypes_ensure_numeric:
  "dtypes (ensure_numeric env t) c = (if c \<in> set CURRENCY_COLS then Some FloatT else dtypes t c)"
  by (simp add: ensure_numeric_def CURRENCY_COLS_def dtypes_ensure_numeric_col)

lemma nth_ensure_numeric:
  "i < length (rows t) \<Longrightarrow>
   (rows (ensure_numeric env t) ! i) c =
     (if c \<in> set CURRENCY_COLS
      then (if has_col t c then fillna 0 (to_numeric env ((rows t ! i) c)) else Num 0)
      else (rows t ! i) c)"
  by (simp add: ensure_numeric_def CURRENCY_COLS_def nth_ensure_numeric_col
      length_ensure_numeric_col has_col_ensure_numeric_col)

text \<open>The normaliser as a whole.\<close>

lemma sexo_not_date: "''Sexo'' \<notin> set DATE_COLS"
  by (simp add: DATE_COLS_def)

lemma normalize_fields_Inl:
  "normalize_fields env t = Inl e \<longleftrightarrow>
     (e = AttributeError \<and> has_col t ''Sexo'' \<and> dtypes t ''Sexo'' \<noteq> Some ObjectT)"
proof (cases "normalize_sexo (parse_dates env (strip_text env t))")
  case (Inl e')
  then have n: "normalize_fields env t = Inl e'"
    by (simp add: normalize_fields_def)
  from Inl have "e' = AttributeError \<and> has_col t ''Sexo'' \<and> dtypes t ''Sexo'' \<noteq> Some ObjectT"
    by (simp add: normalize_sexo_Inl has_col_parse_dates has_col_strip_text
        dtypes_parse_dates dtypes_strip_text sexo_not_date)
  with n show ?thesis by auto
next
  case (Inr t0)
  then have "\<not> (has_col t ''Sexo'' \<and> dtypes t ''Sexo'' \<noteq> Some ObjectT)"
    by (auto simp: normalize_sexo_def has_col_parse_dates has_col_strip_text
        dtypes_parse_dates dtypes_strip_text sexo_not_date split: if_splits)
  with Inr show ?thesis by (auto simp: normalize_fields_def)
qed

lemma normalize_fields_InrD:
  assumes "normalize_fields env t = Inr t1"
  obtains t0 where "normalize_sexo (parse_dates env (strip_text env t)) = Inr t0"
    and "t1 = ensure_numeric env t0"
  using assms by (auto simp: normalize_fields_def split: sum.splits)

lemma length_normalize_fields:
  assumes "normalize_fields env t = Inr t1"
  shows "length (rows t1) = length (rows t)"
proof -
  from assms obtain t0 where s: "normalize_sexo (parse_dates env (strip_text env t)) = Inr t0"
    and e: "t1 = ensure_numeric env t0" by (rule normalize_fields_InrD)
  from normalize_sexo_Inr[OF s] show ?thesis
    by (simp add: e length_ensure_numeric length_parse_dates length_strip_text)
qed

lemma has_col_normalize_fields:
  assumes "normalize_fields env t = Inr t1"
  shows "has_col t1 c = (c \<in> set CURRENCY_COLS \<or> has_col t c)"
proof -
  from assms obtain t0 where s: "normalize_sexo (parse_dates env (strip_text env t)) = Inr t0"
    and e: "t1 = ensure_numeric env t0" by (rule normalize_fields_InrD)
  from normalize_sexo_Inr[OF s] show ?thesis
    by (simp add: e has_col_ensure_numeric has_col_parse_dates has_col_strip_text)
qed

lemma currency_not_date: "c \<in> set CURRENCY_COLS \<Longrightarrow> c \<notin> set DATE_COLS \<and> c \<noteq> ''Sexo''"
  by (auto simp: CURRENCY_COLS_def DATE_COLS_def)

lemma date_not_currency: "c \<in> set DATE_COLS \<Longrightarrow> c \<notin> set CURRENCY_COLS \<and> c \<noteq> ''Sexo''"
  by (auto simp: CURRENCY_COLS_def DATE_COLS_def)

lemma normalize_fields_currency:
  assumes "normalize_fields env t = Inr t1" and "i < length (rows t)" and "c \<in> set CURRENCY_COLS"
  shows "(rows t1 ! i) c =
           (if has_col t c then fillna 0 (to_numeric env (text_cell env t (rows t ! i) c)) else Num 0)"
proof -
  from assms(1) obtain t0 where s: "normalize_sexo (parse_dates env (strip_text env t)) = Inr t0"
    and e: "t1 = ensure_numeric env t0" by (rule normalize_fields_InrD)
  note l = normalize_sexo_Inr[OF s]
  have i0: "i < length (rows t0)" "i < length (rows (parse_dates env (strip_text env t)))"
    "i < length (rows (strip_text env t))"
    using l assms(2) by (simp_all add: length_parse_dates length_strip_text)
  have "(rows t0 ! i) c = text_cell env t (rows t ! i) c"
    using currency_not_date[OF assms(3)] assms(2) i0
    by (simp add: nth_normalize_sexo[OF s] nth_parse_dates nth_strip_text)
  moreover have "has_col t0 c = has_col t c"
    using l by (simp add: has_col_parse_dates has_col_strip_text)
  ultimately show ?thesis
    using assms(3) i0 by (simp add: e nth_ensure_numeric)
qed

lemma normalize_fields_date:
  assumes "normalize_fields env t = Inr t1" and "i < length (rows t)" and "c \<in> set DATE_COLS"
    and "has_col t c"
  shows "(rows t1 ! i) c = to_datetime env (text_cell env t (rows t ! i) c)"
proof -
  from assms(1) obtain t0 where s: "normalize_sexo (parse_dates env (strip_text env t)) = Inr t0"
    and e: "t1 = ensure_numeric env t0" by (rule normalize_fields_InrD)
  note l = normalize_sexo_Inr[OF s]
  have i0: "i < length (rows t0)" "i < length (rows (parse_dates env (strip_text env t)))"
    "i < length (rows (strip_text env t))"
    using l assms(2) by (simp_all add: length_parse_dates length_strip_text)
  have "(rows t0 ! i) c = to_datetime env (text_cell env t (rows t ! i) c)"
    using date_not_currency[OF assms(3)] assms(2,3,4) i0
    by (simp add: nth_normalize_sexo[OF s] nth_parse_dates nth_strip_text has_col_strip_text)
  then show ?thesis
    using date_not_currency[OF assms(3)] i0 by (simp add: e nth_ensure_numeric)
qed

lemma fillna_Num: "\<exists>v. fillna 0 (to_numeric env x) = Num v"
  by (cases x) (auto simp: fillna_def to_numeric_def split: option.splits)

lemma to_datetime_date_cell: "date_cell (to_datetime env x)"
  by (cases x) (auto simp: date_cell_def to_datetime_def split: option.splits)

text \<open>The derived columns, cell by cell.\<close>

lemma length_derive: "length (rows (derive clock t)) = length (rows t)"
  by (simp add: derive_def Let_def rows_assign)

lemma derive_meses:
  "has_col t ''Data de Contratacao'' \<Longrightarrow> i < length (rows t) \<Longrightarrow>
   (rows (derive clock t) ! i) ''Tempo de Casa (meses)'' = meses_cell (midnight clock) ((rows t ! i) ''Data de Contratacao'')"
  by (simp add: derive_def Let_def rows_assign has_col_assign)

lemma derive_custo:
  "i < length (rows t) \<Longrightarrow>
   (rows (derive clock t) ! i) ''Custo Total Mensal'' = custo_cell (rows t ! i)"
  by (simp add: derive_def Let_def rows_assign has_col_assign custo_cell_def CURRENCY_COLS_def)

lemma derive_status:
  "i < length (rows t) \<Longrightarrow>
   (rows (derive clock t) ! i) ''Status'' =
     (if has_col t ''Data de Demissao'' then status_cell ((rows t ! i) ''Data de Demissao'') else Str ''Ativo'')"
  by (simp add: derive_def Let_def rows_assign has_col_assign)


lemma derive_other:
  "(c = ''Idade'' \<longrightarrow> \<not> has_col t ''Data de Nascimento'') \<Longrightarrow>
   (c = ''Tempo de Casa (meses)'' \<longrightarrow> \<not> has_col t ''Data de Contratacao'') \<Longrightarrow>
   c \<noteq> ''Status'' \<Longrightarrow> c \<noteq> ''Custo Total Mensal'' \<Longrightarrow>
   i < length (rows t) \<Longrightarrow> (rows (derive clock t) ! i) c = (rows t ! i) c"
  by (auto simp: derive_def Let_def rows_assign has_col_assign)

lemma dtypes_derive_clock: "dtypes (derive c1 t) = dtypes (derive c2 t)"
  by (simp add: derive_def Let_def dtypes_assign has_col_assign)

lemma has_col_derive:
  "has_col (derive clock t) c =
     (has_col t c \<or> c = ''Status'' \<or> c = ''Custo Total Mensal'' \<or>
      (c = ''Idade'' \<and> has_col t ''Data de Nascimento'') \<or>
      (c = ''Tempo de Casa (meses)'' \<and> has_col t ''Data de Contratacao''))"
  by (auto simp: derive_def Let_def has_col_assign)

lemma prepare_df_InrD:
  assumes "prepare_df env clock t = Inr t'"
  obtains t1 where "normalize_fields env t = Inr t1" and "t' = derive clock t1"
  using assms by (auto simp: prepare_df_def split: sum.splits)

lemma prepare_df_Inl: "prepare_df env clock t = Inl e \<longleftrightarrow> normalize_fields env t = Inl e"
  by (auto simp: prepare_df_def split: sum.splits)

lemma length_prepare_df:
  assumes "prepare_df env clock t = Inr t'"
  shows "length (rows t') = length (rows t)"
  using assms by (auto elim!: prepare_df_InrD simp: length_derive length_normalize_fields)

lemma to_datetime_default:
  "(\<forall>d. x \<noteq> Date d) \<Longrightarrow> datetime_of env x = None \<Longrightarrow> to_datetime env x = Null"
  by (cases x) (auto simp: to_datetime_def)

lemma fillna_default: "to_numeric env x = Null \<Longrightarrow> fillna 0 (to_numeric env x) = Num 0"
  by (simp add: fillna_def)

text \<open>The calendar arithmetic on known dates.\<close>

lemma days_from_civil_examples:
  "days_from_civil 1970 1 1 = 0" "days_from_civil 2020 1 15 = 18276" "days_from_civil 2000 3 1 = 11017"
  by (simp_all add: days_from_civil_def)

lemma idade_cell_example:
  "idade_cell (midnight (2021, 3, 1)) (Date (midnight (1990, 5, 20))) = Num 30"
  by (simp add: idade_cell_def midnight_def epoch_ns_def days_from_civil_def ns_per_day_def)

text \<open>Unfolding the pipeline on a concrete table.\<close>

lemmas pipeline_defs = prepare_df_def normalize_fields_def normalize_sexo_def parse_dates_def parse_date_col_def
  strip_text_def ensure_numeric_def ensure_numeric_col_def derive_def assign_def has_col_def
  DATE_COLS_def CURRENCY_COLS_def Let_def result_col_def col_of_def

lemmas cell_defs = to_numeric_def fillna_def to_datetime_def text_cell_def py_str_def strip_def is_space_def
  custo_cell_def num_or_zero_def status_cell_def meses_cell_def idade_cell_def midnight_def
  str_upper_def replace_sexo_def upper_chr_def ascii_lower_def ascii_upper_def

lemma ex_staff_prepared: "\<exists>t'. prepare_df demo_env clock ex_staff = Inr t'"
  by (simp add: prepare_df_def normalize_fields_def normalize_sexo_def has_col_def parse_dates_def
      DATE_COLS_def parse_date_col_def strip_text_def assign_def ex_staff_def)

subsection \<open>What a filter step returns\<close>

lemma filter_rows_Inr: "filter_rows p rs = Inr rs' \<Longrightarrow> rs' = filter (\<lambda>r. p r = Inr True) rs"
  by (induction rs arbitrary: rs') (auto split: sum.splits if_splits)


lemma mask_rows_Inr:
  "mask_rows c p t = Inr t' \<Longrightarrow> t' = t\<lparr>rows := filter (\<lambda>r. p (r c) = Inr True) (rows t)\<rparr>"
  by (auto simp: mask_rows_def split: sum.splits dest: filter_rows_Inr)


lemma table_rows_same: "t\<lparr>rows := filter (\<lambda>r. True) (rows t)\<rparr> = t"
  by simp

lemma apply_in_keeps:
  "apply_in t c vals = t\<lparr>rows := filter (\<lambda>r. vals \<noteq> [] \<and> dtypes t c \<noteq> None \<longrightarrow> r c \<in> set vals) (rows t)\<rparr>"
  by (simp add: apply_in_def has_col_def)

lemma rows_filter_cong:
  "(\<And>r. r \<in> set (rows t) \<Longrightarrow> P r = Q r) \<Longrightarrow>
   t\<lparr>rows := filter P (rows t)\<rparr> = t\<lparr>rows := filter Q (rows t)\<rparr>"
  by (simp cong: filter_cong)

lemma rows_filter_True: "(\<And>r. r \<in> set (rows t) \<Longrightarrow> P r) \<Longrightarrow> t\<lparr>rows := filter P (rows t)\<rparr> = t"
  by simp

lemma apply_step_Inr:
  assumes "apply_step q s t = Inr t'"
  shows "t' = t\<lparr>rows := filter (keeps q (dtypes t) s) (rows t)\<rparr>"
proof (cases s)
  case FNome
  then show ?thesis using assms
    by (auto simp: contains_rows_def has_col_def rows_filter_True split: if_splits sum.splits
        intro!: rows_filter_cong)
next
  case FIdade
  then show ?thesis using assms
    by (auto simp: has_col_def rows_filter_True split: option.splits if_splits dest!: mask_rows_Inr
        intro!: rows_filter_cong)
next
  case FSalario
  then show ?thesis using assms
    by (auto simp: has_col_def rows_filter_True split: option.splits if_splits dest!: mask_rows_Inr
        intro!: rows_filter_cong)
next
  case FContratacao
  then show ?thesis using assms
    by (auto simp: has_col_def rows_filter_True split: option.splits if_splits dest!: mask_rows_Inr
        intro!: rows_filter_cong)
next
  case FDemissao
  then show ?thesis using assms
    by (auto simp: has_col_def rows_filter_True split: option.splits if_splits dest!: mask_rows_Inr
        intro!: rows_filter_cong)
qed (use assms in \<open>auto simp: apply_in_keeps intro!: rows_filter_cong\<close>)

lemma run_filters_Inr:
  "run_filters q ss t = Inr t' \<Longrightarrow>
   t' = t\<lparr>rows := filter (\<lambda>r. \<forall>s \<in> set ss. keeps q (dtypes t) s r) (rows t)\<rparr>"
proof (induction ss arbitrary: t)
  case Nil
  then show ?case by simp
next
  case (Cons s ss)
  from Cons.prems obtain t1 where a: "apply_step q s t = Inr t1" and r: "run_filters q ss t1 = Inr t'"
    by (auto split: sum.splits)
  note t1 = apply_step_Inr[OF a]
  have d: "dtypes t1 = dtypes t" by (subst t1) simp
  from Cons.IH[OF r] have "t' = t1\<lparr>rows := filter (\<lambda>r. \<forall>s \<in> set ss. keeps q (dtypes t) s r) (rows t1)\<rparr>"
    by (simp add: d)
  also have "\<dots> = t\<lparr>rows := filter (\<lambda>r. \<forall>s \<in> set (s # ss). keeps q (dtypes t) s r) (rows t)\<rparr>"
    by (subst (1 2) t1) (auto intro: filter_cong)
  finally show ?case .
qed












subsection \<open>Derived tables are typed; status counts\<close>



lemma count_partition:
  "(\<forall>r \<in> set rs. f r = a \<or> f r = b) \<Longrightarrow> a \<noteq> b \<Longrightarrow>
   length (filter (\<lambda>r. f r = a) rs) + length (filter (\<lambda>r. f r = b) rs) = length rs"
  by (induction rs) auto

lemma headcount_partition:
  assumes "has_col t ''Status''"
    and "\<forall>r \<in> set (rows t). r ''Status'' = Str ''Ativo'' \<or> r ''Status'' = Str ''Desligado''"
  shows "k_headcount_ativo t + k_desligados t = int (length (rows t))"
proof -
  have "Str ''Ativo'' \<noteq> Str ''Desligado''" by simp
  from count_partition[OF assms(2) this] assms(1) show ?thesis
    by (simp add: k_headcount_ativo_def k_desligados_def)
qed

lemma prepare_df_status:
  assumes "prepare_df env clock t = Inr t'"
  shows "has_col t' ''Status''"
    and "\<forall>r \<in> set (rows t'). r ''Status'' = Str ''Ativo'' \<or> r ''Status'' = Str ''Desligado''"
proof -
  from assms obtain n where n: "normalize_fields env t = Inr n" and d: "t' = derive clock n"
    by (rule prepare_df_InrD)
  show "has_col t' ''Status''" by (simp add: d has_col_derive)
  show "\<forall>r \<in> set (rows t'). r ''Status'' = Str ''Ativo'' \<or> r ''Status'' = Str ''Desligado''"
  proof
    fix r assume "r \<in> set (rows t')"
    then obtain i where i: "i < length (rows t')" and r: "r = rows t' ! i"
      by (auto simp: in_set_conv_nth)
    have "i < length (rows n)" using i by (simp add: d length_derive)
    then show "r ''Status'' = Str ''Ativo'' \<or> r ''Status'' = Str ''Desligado''"
      by (simp add: r d derive_status status_cell_def)
  qed
qed

subsection \<open>Nulls and plain search text in a step\<close>

lemma msel_no_null: "Null \<notin> set (msel t c)"
  by (simp add: msel_def)

lemma apply_in_absent: "\<not> has_col t c \<Longrightarrow> apply_in t c vals = t"
  by (simp add: apply_in_def)

lemma apply_in_null:
  "vals \<noteq> [] \<Longrightarrow> has_col t c \<Longrightarrow> Null \<notin> set vals \<Longrightarrow> r c = Null \<Longrightarrow> r \<notin> set (rows (apply_in t c vals))"
  by (auto simp: apply_in_def)

lemma mask_rows_mem:
  "mask_rows c p t = Inr t' \<Longrightarrow> r \<in> set (rows t') \<longleftrightarrow> r \<in> set (rows t) \<and> p (r c) = Inr True"
  by (auto dest!: mask_rows_Inr)

lemma contains_rows_null:
  "contains_rows c pat t = Inr t' \<Longrightarrow> r c = Null \<Longrightarrow> r \<notin> set (rows t')"
  by (auto simp: contains_rows_def str_contains_def split: if_splits sum.splits)

lemma in_range_Null: "in_range lo hi Null = Inr False"
  by (simp add: in_range_def)

lemma in_period_Null: "in_period a b Null = Inr True"
  by (simp add: in_period_def)

lemma re_compile_plain: "plain_text pat \<Longrightarrow> re_compile pat = Inr (map Lit pat)"
  by (induction pat) (auto simp: plain_text_def)

lemma match_here_plain:
  "match_here (map Lit pat) s = prefix (map lower_chr pat) (map lower_chr s)"
  by (induction "map Lit pat" s arbitrary: pat rule: match_here.induct) auto

lemma re_search_plain: "re_search (map Lit pat) s = ci_substring pat s"
  by (induction s) (auto simp: ci_substring_def match_here_plain sublist_Cons_right)

lemma str_contains_plain:
  "str_contains (map Lit pat) x = (case x of Str s \<Rightarrow> ci_substring pat s | _ \<Rightarrow> False)"
  by (simp add: str_contains_def re_search_plain split: cell.splits)

lemma contains_rows_plain:
  assumes "plain_text pat" and "dtypes t c = Some ObjectT"
  shows "contains_rows c pat t =
           Inr (t\<lparr>rows := filter (\<lambda>r. case r c of Str s \<Rightarrow> ci_substring pat s | _ \<Rightarrow> False) (rows t)\<rparr>)"
  using assms by (simp add: contains_rows_def re_compile_plain str_contains_plain)

text \<open>Unfolding the filters on a concrete table.\<close>

lemmas filter_defs = apply_filters_def source_order_def apply_in_def contains_rows_def mask_rows_def
  in_range_def in_period_def str_contains_def has_col_def result_col_def col_of_def
  col_area_def col_nivel_def re_operators_def lower_chr_def ascii_lower_def ascii_upper_def
  epoch_ns_def days_from_civil_def ns_per_day_def midnight_def Let_def


lemma ex_derived_reversed: "result_col (run_filters ex_criteria (rev source_order) ex_derived) ''Nome Completo'' =
    Inr [Str ''Ana Lima'', Str ''Mariana Sa'']"
  by (simp add: filter_defs ex_criteria_def no_filters_def ex_derived_def blank_def)


subsection \<open>Sums and means of a column\<close>

lemma numbers_numeric: "(\<forall>x \<in> set xs. numeric_cell x) \<Longrightarrow> \<exists>vs. numbers xs = Some vs"
proof (induction xs)
  case Nil
  then show ?case by simp
next
  case (Cons x xs)
  then obtain vs where "numbers xs = Some vs" by auto
  with Cons.prems show ?case
    by (cases x) (auto simp: numeric_cell_def)
qed

lemma numbers_length: "numbers xs = Some vs \<Longrightarrow> length vs = length (dropna xs)"
proof (induction xs arbitrary: vs)
  case Nil
  then show ?case by (simp add: dropna_def)
next
  case (Cons x xs)
  then show ?case
    by (cases x) (auto simp: dropna_def split: option.splits)
qed

lemma series_sum_numeric: "(\<forall>x \<in> set xs. numeric_cell x) \<Longrightarrow> \<exists>v. series_sum xs = Inr v"
  using numbers_numeric[of xs] by (auto simp: series_sum_def)

lemma series_mean_numeric:
  assumes "\<forall>x \<in> set xs. numeric_cell x" and "dropna xs \<noteq> []"
  shows "\<exists>v. series_mean xs = Inr (Some v)"
proof -
  from numbers_numeric[OF assms(1)] obtain vs where vs: "numbers xs = Some vs" ..
  from numbers_length[OF vs] assms(2) have "vs \<noteq> []" by auto
  with vs show ?thesis by (simp add: series_mean_def)
qed

lemma col_of_numeric:
  "numeric_col t c \<Longrightarrow> has_col t c \<Longrightarrow> \<forall>x \<in> set (col_of t c). numeric_cell x"
  by (auto simp: numeric_col_def col_of_def)

lemma col_of_ativos_numeric:
  "numeric_col t c \<Longrightarrow> has_col t c \<Longrightarrow> \<forall>x \<in> set (col_of (ativos t) c). numeric_cell x"
  by (auto simp: numeric_col_def col_of_def ativos_def)

lemma k_sum_defined:
  assumes "numeric_col t c"
  shows "\<exists>v. (if has_col t c \<and> has_col t ''Status'' then series_sum (col_of (ativos t) c) else Inr 0) = Inr v"
  using series_sum_numeric[OF col_of_ativos_numeric[OF assms]] by auto

lemma k_mean_defined:
  assumes "numeric_col t c"
  shows "\<exists>v. (if has_col t c \<and> dropna (col_of t c) \<noteq> [] then series_mean (col_of t c) else Inr (Some 0)) =
             Inr (Some v)"
  using series_mean_numeric[OF col_of_numeric[OF assms]] by auto

lemma prepare_df_custo_numeric:
  assumes "prepare_df env clock t = Inr t'"
  shows "numeric_col t' ''Custo Total Mensal''"
proof -
  from assms obtain n where n: "normalize_fields env t = Inr n" and d: "t' = derive clock n"
    by (rule prepare_df_InrD)
  have "numeric_cell (r ''Custo Total Mensal'')" if "r \<in> set (rows t')" for r
  proof -
    from that obtain i where i: "i < length (rows t')" and r: "r = rows t' ! i"
      by (auto simp: in_set_conv_nth)
    have "i < length (rows n)" using i by (simp add: d length_derive)
    then show ?thesis by (simp add: r d derive_custo custo_cell_def numeric_cell_def)
  qed
  then show ?thesis by (simp add: numeric_col_def)
qed

lemma prepare_df_currency_Num:
  assumes "prepare_df env clock t = Inr t'" and "c \<in> set CURRENCY_COLS" and "r \<in> set (rows t')"
  shows "\<exists>v. r c = Num v"
proof -
  from assms(1) obtain n where n: "normalize_fields env t = Inr n" and d: "t' = derive clock n"
    by (rule prepare_df_InrD)
  from assms(3) obtain i where i: "i < length (rows t')" and r: "r = rows t' ! i"
    by (auto simp: in_set_conv_nth)
  have i1: "i < length (rows n)" using i by (simp add: d length_derive)
  have it: "i < length (rows t)" using i1 length_normalize_fields[OF n] by simp
  from normalize_fields_currency[OF n it assms(2)] fillna_Num[of env]
  have "\<exists>v. (rows n ! i) c = Num v" by auto
  moreover have "r c = (rows n ! i) c"
    using assms(2) i1 by (auto simp: r d CURRENCY_COLS_def derive_other)
  ultimately show ?thesis by simp
qed

lemma numeric_col_rows:
  "numeric_col t c \<Longrightarrow> set rs \<subseteq> set (rows t) \<Longrightarrow> numeric_col (t\<lparr>rows := rs\<rparr>) c"
  by (auto simp: numeric_col_def has_col_def)

subsection \<open>Currency fields after normalisation\<close>

text \<open>
  Claim C1, as amended. For every input table on which \<open>prepare_df\<close> returns, and each
  of the five currency columns: the table keeps its rows, and every row holds a number
  (never a null) in that column. The number is 0.0 for every row when the input has no
  such column, 0.0 where the cell does not convert, and the converted value of the
  cell otherwise, with its sign: lines 106 to 109 coerce and fill, and do not clip.
\<close>

theorem currency_fields_numeric:
  assumes "prepare_df env clock t = Inr t'" and "c \<in> set CURRENCY_COLS"
  shows "length (rows t') = length (rows t) \<and>
         (\<forall>r \<in> set (rows t'). \<exists>v. r c = Num v) \<and>
         (\<forall>i < length (rows t).
            (rows t' ! i) c =
              (if has_col t c then fillna 0 (to_numeric env (text_cell env t (rows t ! i) c)) else Num 0)) \<and>
         (\<forall>i < length (rows t). \<not> has_col t c \<longrightarrow> (rows t' ! i) c = Num 0) \<and>
         (\<forall>i < length (rows t).
            to_numeric env (text_cell env t (rows t ! i) c) = Null \<longrightarrow> (rows t' ! i) c = Num 0) \<and>
         (\<forall>i < length (rows t). \<forall>v.
            has_col t c \<and> to_numeric env (text_cell env t (rows t ! i) c) = Num v \<longrightarrow>
            (rows t' ! i) c = Num v)"
proof -
  from assms(1) obtain t1 where n: "normalize_fields env t = Inr t1" and d: "t' = derive clock t1"
    by (rule prepare_df_InrD)
  have len: "length (rows t') = length (rows t)"
    using assms(1) by (rule length_prepare_df)
  have len1: "length (rows t1) = length (rows t)"
    using n by (rule length_normalize_fields)
  have other: "c \<noteq> ''Idade''" "c \<noteq> ''Tempo de Casa (meses)''" "c \<noteq> ''Status''"
    "c \<noteq> ''Custo Total Mensal''"
    using assms(2) by (auto simp: CURRENCY_COLS_def)
  have cellv: "(rows t' ! i) c =
      (if has_col t c then fillna 0 (to_numeric env (text_cell env t (rows t ! i) c)) else Num 0)"
    if "i < length (rows t)" for i
    using that other len1 by (simp add: d derive_other normalize_fields_currency[OF n that assms(2)])
  have num: "\<exists>v. r c = Num v" if "r \<in> set (rows t')" for r
  proof -
    from that obtain i where i: "i < length (rows t')" and r: "r = rows t' ! i"
      by (auto simp: in_set_conv_nth)
    from i len have "i < length (rows t)" by simp
    from cellv[OF this] fillna_Num[of env] show ?thesis
      by (auto simp: r)
  qed
  show ?thesis
    using len num cellv by (auto simp: fillna_def)
qed

text \<open>
  On the example: the text \<^verbatim>\<open>1000\<close> becomes 1000, the text \<^verbatim>\<open>abc\<close> becomes 0, and the
  column VT, which the input lacks, is 0.
\<close>

theorem currency_fields_numeric_witness:
  "\<exists>t'. prepare_df demo_env (2021, 3, 1) ex_staff = Inr t' \<and>
        length (rows t') = length (rows ex_staff) \<and>
        (rows t' ! 0) ''Salario Base'' = Num 1000 \<and>
        (rows t' ! 1) ''Salario Base'' = Num 0 \<and>
        (rows t' ! 0) ''VT'' = Num 0"
proof -
  obtain t' where p: "prepare_df demo_env (2021, 3, 1) ex_staff = Inr t'"
    using ex_staff_prepared by blast
  have c1: "''Salario Base'' \<in> set CURRENCY_COLS" and c2: "''VT'' \<in> set CURRENCY_COLS"
    by (simp_all add: CURRENCY_COLS_def)
  have l: "length (rows ex_staff) = 2" by (simp add: ex_staff_def)
  from currency_fields_numeric[OF p c1] currency_fields_numeric[OF p c2] l
  have "length (rows t') = length (rows ex_staff)"
    and "(rows t' ! 0) ''Salario Base'' =
       (if has_col ex_staff ''Salario Base''
        then fillna 0 (to_numeric demo_env (text_cell demo_env ex_staff (rows ex_staff ! 0) ''Salario Base''))
        else Num 0)"
    and "(rows t' ! 1) ''Salario Base'' =
       (if has_col ex_staff ''Salario Base''
        then fillna 0 (to_numeric demo_env (text_cell demo_env ex_staff (rows ex_staff ! 1) ''Salario Base''))
        else Num 0)"
    and "(rows t' ! 0) ''VT'' =
       (if has_col ex_staff ''VT''
        then fillna 0 (to_numeric demo_env (text_cell demo_env ex_staff (rows ex_staff ! 0) ''VT''))
        else Num 0)"
    by simp_all
  then show ?thesis
    using p by (simp add: has_col_def cell_defs ex_staff_def demo_env_def blank_def)
qed

text \<open>
  Claim C1 as stated fails: a salary cell that holds the number -5 holds -5 after
  normalisation, so the currency fields are not non-negative for every input.
\<close>

theorem currency_negative_counterexample:
  "result_col (prepare_df demo_env (2021, 3, 1) ex_negative) ''Salario Base'' = Inr [Num (- 5)]"
  by (simp add: pipeline_defs cell_defs ex_negative_def demo_env_def blank_def)

subsection \<open>The total monthly cost\<close>

text \<open>
  Claim C2. In every row of the table \<open>prepare_df\<close> returns, the five currency fields
  are numbers and \<^verbatim>\<open>Custo Total Mensal\<close> is their sum (line 127). Numbers are exact
  here; the rounding of the float64 additions is outside the model.
\<close>

theorem total_cost_is_sum:
  assumes "prepare_df env clock t = Inr t'" and "r \<in> set (rows t')"
  shows "\<exists>a b c d e.
           r ''Salario Base'' = Num a \<and> r ''Impostos'' = Num b \<and> r ''Beneficios'' = Num c \<and>
           r ''VT'' = Num d \<and> r ''VR'' = Num e \<and>
           r ''Custo Total Mensal'' = Num (a + b + c + d + e)"
proof -
  from assms(1) obtain t1 where n: "normalize_fields env t = Inr t1" and d: "t' = derive clock t1"
    by (rule prepare_df_InrD)
  from assms(2) obtain i where i: "i < length (rows t')" and r: "r = rows t' ! i"
    by (auto simp: in_set_conv_nth)
  have i1: "i < length (rows t1)" using i by (simp add: d length_derive)
  have it: "i < length (rows t)" using i1 length_normalize_fields[OF n] by simp
  have num: "\<exists>v. (rows t1 ! i) c = Num v" if "c \<in> set CURRENCY_COLS" for c
    using normalize_fields_currency[OF n it that] fillna_Num[of env] by auto
  have keep: "r c = (rows t1 ! i) c" if "c \<in> set CURRENCY_COLS" for c
    using that i1 by (auto simp: r d CURRENCY_COLS_def derive_other)
  have cost: "r ''Custo Total Mensal'' = custo_cell (rows t1 ! i)"
    using i1 by (simp add: r d derive_custo)
  obtain a where a: "(rows t1 ! i) ''Salario Base'' = Num a" using num by (auto simp: CURRENCY_COLS_def)
  obtain b where b: "(rows t1 ! i) ''Impostos'' = Num b" using num by (auto simp: CURRENCY_COLS_def)
  obtain c where c: "(rows t1 ! i) ''Beneficios'' = Num c" using num by (auto simp: CURRENCY_COLS_def)
  obtain dd where dd: "(rows t1 ! i) ''VT'' = Num dd" using num by (auto simp: CURRENCY_COLS_def)
  obtain e where e: "(rows t1 ! i) ''VR'' = Num e" using num by (auto simp: CURRENCY_COLS_def)
  have "custo_cell (rows t1 ! i) = Num (a + b + c + dd + e)"
    by (simp add: custo_cell_def CURRENCY_COLS_def num_or_zero_def a b c dd e)
  with cost a b c dd e keep show ?thesis
    by (auto simp: CURRENCY_COLS_def)
qed

text \<open>On the example, the first employee costs 1000 + 100 + 0 + 0 + 0.\<close>

theorem total_cost_is_sum_witness:
  "\<exists>t' r. prepare_df demo_env (2021, 3, 1) ex_staff = Inr t' \<and> r \<in> set (rows t') \<and>
     (\<exists>a b c d e.
           r ''Salario Base'' = Num a \<and> r ''Impostos'' = Num b \<and> r ''Beneficios'' = Num c \<and>
           r ''VT'' = Num d \<and> r ''VR'' = Num e \<and>
           r ''Custo Total Mensal'' = Num (a + b + c + d + e)) \<and>
     result_col (Inr t') ''Custo Total Mensal'' = Inr [Num 1100, Num 0]"
proof -
  obtain t' where p: "prepare_df demo_env (2021, 3, 1) ex_staff = Inr t'"
    using ex_staff_prepared by blast
  have "length (rows t') = 2"
    using length_prepare_df[OF p] by (simp add: ex_staff_def)
  then have m: "rows t' ! 0 \<in> set (rows t')" by simp
  have "result_col (prepare_df demo_env (2021, 3, 1) ex_staff) ''Custo Total Mensal'' =
          Inr [Num 1100, Num 0]"
    by (simp add: pipeline_defs cell_defs ex_staff_def demo_env_def blank_def)
  with total_cost_is_sum[OF p m] p m show ?thesis by auto
qed

subsection \<open>The tenure scenario\<close>

text \<open>
  Claim C5, as amended. With the clock at 2021-03-01, a row whose hire date is
  2020-01-15 gets \<^verbatim>\<open>Tempo de Casa (meses)\<close> = (2021 - 2020) * 12 + (3 - 1) = 14.
\<close>

theorem tenure_scenario:
  assumes "prepare_df env (2021, 3, 1) t = Inr t'" and "i < length (rows t)"
    and "dtypes t ''Data de Contratacao'' = Some DatetimeT"
    and "(rows t ! i) ''Data de Contratacao'' = Date (midnight (2020, 1, 15))"
  shows "(rows t' ! i) ''Tempo de Casa (meses)'' = Num 14"
proof -
  from assms(1) obtain t1 where n: "normalize_fields env t = Inr t1" and d: "t' = derive (2021, 3, 1) t1"
    by (rule prepare_df_InrD)
  have h: "has_col t ''Data de Contratacao''" using assms(3) by (simp add: has_col_def)
  have h1: "has_col t1 ''Data de Contratacao''" using h by (simp add: has_col_normalize_fields[OF n])
  have i1: "i < length (rows t1)" using assms(2) length_normalize_fields[OF n] by simp
  have "(rows t1 ! i) ''Data de Contratacao'' = Date (midnight (2020, 1, 15))"
    using normalize_fields_date[OF n assms(2) _ h] assms(3,4)
    by (simp add: DATE_COLS_def text_cell_def to_datetime_def)
  then show ?thesis
    using h1 i1 by (simp add: d derive_meses meses_cell_def midnight_def)
qed

text \<open>The first employee of the example was hired on 2020-01-15.\<close>

theorem tenure_scenario_witness:
  "\<exists>t'. prepare_df demo_env (2021, 3, 1) ex_staff = Inr t' \<and>
        (rows t' ! 0) ''Tempo de Casa (meses)'' = Num 14"
proof -
  obtain t' where p: "prepare_df demo_env (2021, 3, 1) ex_staff = Inr t'"
    using ex_staff_prepared by blast
  have "(rows t' ! 0) ''Tempo de Casa (meses)'' = Num 14"
    by (rule tenure_scenario[OF p]) (simp_all add: ex_staff_def blank_def)
  with p show ?thesis by blast
qed

text \<open>Claim C5 as stated fails: the formula of lines 118 to 120 does not give 13 at these dates.\<close>

theorem tenure_scenario_counterexample:
  "meses_cell (midnight (2021, 3, 1)) (Date (midnight (2020, 1, 15))) \<noteq> Num 13"
  by (simp add: meses_cell_def midnight_def)

subsection \<open>The normaliser raises on a column Sexo that is not text\<close>

text \<open>
  Claim C7. The code fails it. Line 99 guards the presence of the column
  \<^verbatim>\<open>Sexo\<close>, not its dtype: on a sheet whose column \<^verbatim>\<open>Sexo\<close> holds numeric codes, or
  is blank, pandas reads a numeric column, and \<^verbatim>\<open>df["Sexo"].str\<close> at line 101 raises
  AttributeError. The steps beside it degrade instead of raising (lines 90 to 91 select
  the text columns by dtype, lines 96 and 109 coerce). That is the only way the stage
  raises: \<open>normalize_fields_Inl\<close>.
\<close>

theorem normalizer_raises_on_numeric_sexo:
  "normalize_fields demo_env ex_sexo_codes = Inl AttributeError \<and>
   normalize_fields demo_env ex_sexo_blank = Inl AttributeError \<and>
   prepare_df demo_env (2021, 3, 1) ex_sexo_blank = Inl AttributeError"
  by (simp add: prepare_df_def normalize_fields_def normalize_sexo_def parse_dates_def
      parse_date_col_def strip_text_def DATE_COLS_def has_col_def assign_def ex_sexo_codes_def
      ex_sexo_blank_def)

text \<open>
  Where the column \<^verbatim>\<open>Sexo\<close> is a text column, or the sheet has none, the stage does what
  the claim says: it returns a table with the same rows, each currency cell a number
  (0.0 where the input has no such column or the cell does not convert), each cell of
  a date column the input has a Timestamp or null (null where the cell does not parse).
\<close>

lemma normalize_fields_returns:
  assumes "has_col t ''Sexo'' \<longrightarrow> dtypes t ''Sexo'' = Some ObjectT"
  shows "\<exists>t'. normalize_fields env t = Inr t' \<and> length (rows t') = length (rows t) \<and>
           (\<forall>i < length (rows t).
              (\<forall>c \<in> set CURRENCY_COLS.
                 \<exists>v. (rows t' ! i) c = Num v \<and>
                     (\<not> has_col t c \<or> to_numeric env (text_cell env t (rows t ! i) c) = Null \<longrightarrow> v = 0)) \<and>
              (\<forall>c \<in> set DATE_COLS. has_col t c \<longrightarrow>
                 date_cell ((rows t' ! i) c) \<and>
                 ((\<forall>d. text_cell env t (rows t ! i) c \<noteq> Date d) \<and>
                  datetime_of env (text_cell env t (rows t ! i) c) = None \<longrightarrow>
                  (rows t' ! i) c = Null)))"
proof -
  have "\<not> (\<exists>e. normalize_fields env t = Inl e)"
    using assms by (auto simp: normalize_fields_Inl)
  then obtain t' where n: "normalize_fields env t = Inr t'"
    by (cases "normalize_fields env t") auto
  have cur: "\<exists>v. (rows t' ! i) c = Num v \<and>
                     (\<not> has_col t c \<or> to_numeric env (text_cell env t (rows t ! i) c) = Null \<longrightarrow> v = 0)"
    if "i < length (rows t)" and "c \<in> set CURRENCY_COLS" for i c
    using normalize_fields_currency[OF n that] fillna_Num[of env "text_cell env t (rows t ! i) c"]
    by (auto simp: fillna_def)
  have dat: "date_cell ((rows t' ! i) c) \<and>
                 ((\<forall>d. text_cell env t (rows t ! i) c \<noteq> Date d) \<and>
                  datetime_of env (text_cell env t (rows t ! i) c) = None \<longrightarrow>
                  (rows t' ! i) c = Null)"
    if "i < length (rows t)" and "c \<in> set DATE_COLS" and "has_col t c" for i c
    using normalize_fields_date[OF n that] to_datetime_date_cell[of env] to_datetime_default[of _ env]
    by auto
  from n length_normalize_fields[OF n] cur dat show ?thesis by blast
qed

subsection \<open>The reference date is the system clock\<close>

text \<open>
  Claim C9, as amended. \<^verbatim>\<open>prepare_df\<close> takes the table alone and reads the reference
  date from the system clock (line 112). Whether a run raises does not depend on the
  clock; two runs on the same input table return tables with the same columns and the
  same rows but for the cells of \<^verbatim>\<open>Idade\<close> and \<^verbatim>\<open>Tempo de Casa (meses)\<close> when these
  are derived (\<^verbatim>\<open>Status\<close> and \<^verbatim>\<open>Custo Total Mensal\<close> do not depend on the date); and
  two runs at the same clock date return identical tables.
\<close>

theorem clock_only_in_age_and_tenure:
  "(\<forall>e. prepare_df env c1 t = Inl e \<longleftrightarrow> prepare_df env c2 t = Inl e) \<and>
   (\<forall>t1 t2. prepare_df env c1 t = Inr t1 \<and> prepare_df env c2 t = Inr t2 \<longrightarrow>
      dtypes t1 = dtypes t2 \<and> length (rows t1) = length (rows t2) \<and>
      (\<forall>i < length (rows t1). \<forall>c.
         (c = ''Idade'' \<longrightarrow> \<not> has_col t ''Data de Nascimento'') \<and>
         (c = ''Tempo de Casa (meses)'' \<longrightarrow> \<not> has_col t ''Data de Contratacao'') \<longrightarrow>
         (rows t1 ! i) c = (rows t2 ! i) c)) \<and>
   (c1 = c2 \<longrightarrow> prepare_df env c1 t = prepare_df env c2 t)"
proof -
  have a: "prepare_df env c1 t = Inl e \<longleftrightarrow> prepare_df env c2 t = Inl e" for e
    by (simp add: prepare_df_Inl)
  have b: "dtypes t1 = dtypes t2 \<and> length (rows t1) = length (rows t2) \<and>
      (\<forall>i < length (rows t1). \<forall>c.
         (c = ''Idade'' \<longrightarrow> \<not> has_col t ''Data de Nascimento'') \<and>
         (c = ''Tempo de Casa (meses)'' \<longrightarrow> \<not> has_col t ''Data de Contratacao'') \<longrightarrow>
         (rows t1 ! i) c = (rows t2 ! i) c)"
    if p1: "prepare_df env c1 t = Inr t1" and p2: "prepare_df env c2 t = Inr t2" for t1 t2
  proof -
    from p1 obtain n where n: "normalize_fields env t = Inr n" and d1: "t1 = derive c1 n"
      by (rule prepare_df_InrD)
    from p2 n have d2: "t2 = derive c2 n"
      by (auto elim!: prepare_df_InrD)
    have hb: "has_col n ''Data de Nascimento'' = has_col t ''Data de Nascimento''"
      and hh: "has_col n ''Data de Contratacao'' = has_col t ''Data de Contratacao''"
      by (simp_all add: has_col_normalize_fields[OF n] CURRENCY_COLS_def)
    have cells: "(rows t1 ! i) c = (rows t2 ! i) c"
      if i: "i < length (rows n)"
        and c: "c = ''Idade'' \<longrightarrow> \<not> has_col t ''Data de Nascimento''"
          "c = ''Tempo de Casa (meses)'' \<longrightarrow> \<not> has_col t ''Data de Contratacao''" for i c
    proof (cases "c = ''Status'' \<or> c = ''Custo Total Mensal''")
      case True
      then show ?thesis using i by (auto simp: d1 d2 derive_status derive_custo)
    next
      case False
      then show ?thesis using i c hb hh by (simp add: d1 d2 derive_other)
    qed
    show ?thesis
      using cells by (simp add: d1 d2 dtypes_derive_clock[of c1 n c2] length_derive)
  qed
  from a b show ?thesis by blast
qed

text \<open>On the example, a run in March 2021 and a run in March 2022 agree on status and cost.\<close>

theorem clock_only_in_age_and_tenure_witness:
  "\<exists>t1 t2. prepare_df demo_env (2021, 3, 1) ex_staff = Inr t1 \<and>
           prepare_df demo_env (2022, 3, 1) ex_staff = Inr t2 \<and>
           dtypes t1 = dtypes t2 \<and> (rows t1 ! 0) ''Status'' = (rows t2 ! 0) ''Status'' \<and>
           (rows t1 ! 0) ''Custo Total Mensal'' = (rows t2 ! 0) ''Custo Total Mensal''"
proof -
  obtain t1 where p1: "prepare_df demo_env (2021, 3, 1) ex_staff = Inr t1"
    using ex_staff_prepared by blast
  obtain t2 where p2: "prepare_df demo_env (2022, 3, 1) ex_staff = Inr t2"
    using ex_staff_prepared by blast
  have l: "0 < length (rows t1)"
    using length_prepare_df[OF p1] by (simp add: ex_staff_def)
  from clock_only_in_age_and_tenure[of demo_env "(2021, 3, 1)" ex_staff "(2022, 3, 1)"] p1 p2
  have "dtypes t1 = dtypes t2 \<and> length (rows t1) = length (rows t2) \<and>
      (\<forall>i < length (rows t1). \<forall>c.
         (c = ''Idade'' \<longrightarrow> \<not> has_col ex_staff ''Data de Nascimento'') \<and>
         (c = ''Tempo de Casa (meses)'' \<longrightarrow> \<not> has_col ex_staff ''Data de Contratacao'') \<longrightarrow>
         (rows t1 ! i) c = (rows t2 ! i) c)"
    by blast
  with l have "dtypes t1 = dtypes t2" and "(rows t1 ! 0) ''Status'' = (rows t2 ! 0) ''Status''"
    and "(rows t1 ! 0) ''Custo Total Mensal'' = (rows t2 ! 0) ''Custo Total Mensal''"
    by auto
  with p1 p2 show ?thesis by blast
qed

text \<open>
  Claim C9 as stated fails: the result is not determined by what the caller supplies.
  Two runs on the same input table, one with the clock at 2021-03-01 and one a year
  later, return different tables (a tenure of 14 months against 26).
\<close>

theorem clock_dependence_counterexample:
  "prepare_df demo_env (2021, 3, 1) ex_staff \<noteq> prepare_df demo_env (2022, 3, 1) ex_staff"
proof
  assume "prepare_df demo_env (2021, 3, 1) ex_staff = prepare_df demo_env (2022, 3, 1) ex_staff"
  then have "result_col (prepare_df demo_env (2021, 3, 1) ex_staff) ''Tempo de Casa (meses)'' =
             result_col (prepare_df demo_env (2022, 3, 1) ex_staff) ''Tempo de Casa (meses)''"
    by simp
  moreover have "result_col (prepare_df demo_env (2021, 3, 1) ex_staff) ''Tempo de Casa (meses)'' =
                 Inr [Num 14, Null]"
    by (simp add: pipeline_defs cell_defs ex_staff_def demo_env_def blank_def)
  moreover have "result_col (prepare_df demo_env (2022, 3, 1) ex_staff) ''Tempo de Casa (meses)'' =
                 Inr [Num 26, Null]"
    by (simp add: pipeline_defs cell_defs ex_staff_def demo_env_def blank_def)
  ultimately show False by simp
qed

subsection \<open>The order of the filter steps\<close>



subsection \<open>Nulls in the filtered field\<close>

text \<open>
  Claim C4, as amended. Take a step that the sidebar made active and that returns, and
  a row whose cell in the step's column is null; the values of a multiselect are
  among its options, which \<^verbatim>\<open>msel\<close> draws from the non-null cells. If the table
  has the column: a date-range step keeps the row, and a categorical, name or
  numeric-range step drops it. If the table does not have the column, the step is
  skipped and returns the table as it is.
\<close>

theorem null_handling:
  assumes "apply_step q s t = Inr t'" and "step_active q s"
    and "r \<in> set (rows t)" and "r (step_col s) = Null"
    and "set (step_values q s) \<subseteq> set (msel t0 (step_col s))"
  shows "(\<not> has_col t (step_col s) \<longrightarrow> t' = t) \<and>
         (has_col t (step_col s) \<and> is_date_step s \<longrightarrow> r \<in> set (rows t')) \<and>
         (has_col t (step_col s) \<and> \<not> is_date_step s \<longrightarrow> r \<notin> set (rows t'))"
proof -
  from assms(5) msel_no_null[of t0 "step_col s"] have nn: "Null \<notin> set (step_values q s)"
    by blast
  show ?thesis
  proof (cases s)
    case FArea
    with assms(1-4) nn show ?thesis by (auto simp: apply_in_absent apply_in_null)
  next
    case FNivel
    with assms(1-4) nn show ?thesis by (auto simp: apply_in_absent apply_in_null)
  next
    case FCargo
    with assms(1-4) nn show ?thesis by (auto simp: apply_in_absent apply_in_null)
  next
    case FSexo
    with assms(1-4) nn show ?thesis by (auto simp: apply_in_absent apply_in_null)
  next
    case FStatus
    with assms(1-4) nn show ?thesis by (auto simp: apply_in_absent apply_in_null)
  next
    case FNome
    with assms(1-4) show ?thesis by (auto dest: contains_rows_null)
  next
    case FIdade
    with assms(1-4) show ?thesis by (auto simp: mask_rows_mem in_range_Null)
  next
    case FSalario
    with assms(1-4) show ?thesis by (auto simp: mask_rows_mem in_range_Null)
  next
    case FContratacao
    with assms(1-4) show ?thesis by (auto simp: mask_rows_mem in_period_Null)
  next
    case FDemissao
    with assms(1-4) show ?thesis by (auto simp: mask_rows_mem in_period_Null)
  qed
qed

text \<open>
  On the example, the third row has no hire date and no age: the hire-date step
  keeps the row, the age step drops it.
\<close>

theorem null_handling_witness:
  "result_col (apply_step ex_criteria FContratacao ex_derived) ''Nome Completo'' =
     Inr [Str ''Ana Lima'', Str ''Rui Paz'', Str ''Mariana Sa''] \<and>
   (\<exists>t'. apply_step ex_criteria FContratacao ex_derived = Inr t' \<and> rows ex_derived ! 2 \<in> set (rows t')) \<and>
   (\<exists>t'. apply_step (ex_criteria\<lparr>faixa_idade := Some (18, 65)\<rparr>) FIdade ex_derived = Inr t' \<and>
         rows ex_derived ! 2 \<notin> set (rows t'))"
proof -
  let ?r = "rows ex_derived ! 2"
  have r: "?r \<in> set (rows ex_derived)" by (simp add: ex_derived_def)
  have e1: "result_col (apply_step ex_criteria FContratacao ex_derived) ''Nome Completo'' =
     Inr [Str ''Ana Lima'', Str ''Rui Paz'', Str ''Mariana Sa'']"
    by (simp add: filter_defs ex_criteria_def no_filters_def ex_derived_def blank_def)
  then obtain t1 where a1: "apply_step ex_criteria FContratacao ex_derived = Inr t1"
    by (cases "apply_step ex_criteria FContratacao ex_derived") (auto simp: result_col_def)
  have "?r \<in> set (rows t1)"
    using null_handling[OF a1 _ r, of ex_derived]
    by (simp add: ex_criteria_def no_filters_def ex_derived_def blank_def has_col_def)
  with a1 have c1: "\<exists>t'. apply_step ex_criteria FContratacao ex_derived = Inr t' \<and> ?r \<in> set (rows t')"
    by blast
  let ?q = "ex_criteria\<lparr>faixa_idade := Some (18, 65)\<rparr>"
  have "result_col (apply_step ?q FIdade ex_derived) ''Nome Completo'' = Inr [Str ''Ana Lima'']"
    by (simp add: filter_defs ex_criteria_def no_filters_def ex_derived_def blank_def)
  then obtain t2 where a2: "apply_step ?q FIdade ex_derived = Inr t2"
    by (cases "apply_step ?q FIdade ex_derived") (auto simp: result_col_def)
  have "?r \<notin> set (rows t2)"
    using null_handling[OF a2 _ r, of ex_derived]
    by (simp add: ex_criteria_def no_filters_def ex_derived_def blank_def has_col_def)
  with a2 have c2: "\<exists>t'. apply_step ?q FIdade ex_derived = Inr t' \<and> ?r \<notin> set (rows t')"
    by blast
  from e1 c1 c2 show ?thesis by blast
qed

text \<open>
  Claim C4 as stated fails where the target column is absent: with a search text typed
  in and no column \<^verbatim>\<open>Nome Completo\<close>, the guard of line 274 skips the step and the
  row stays.
\<close>

theorem absent_column_counterexample:
  "step_active (no_filters\<lparr>nome_busca := ''ana''\<rparr>) FNome \<and>
   \<not> has_col ex_noname (step_col FNome) \<and>
   result_col (apply_step (no_filters\<lparr>nome_busca := ''ana''\<rparr>) FNome ex_noname) ''Cargo'' =
     Inr [Str ''Dev'']"
  by (simp add: filter_defs no_filters_def ex_noname_def blank_def)

subsection \<open>The name filter reads the search text as a regular expression\<close>

text \<open>
  Claim C8. The code fails it. Lines 275 and 373 call
  \<^verbatim>\<open>str.contains(text, case=False, na=False)\<close> and leave \<^verbatim>\<open>regex\<close> at its default, so
  the search text is compiled as a regular expression: in both filter blocks the
  search text \<^verbatim>\<open>.\<close> selects the name \<^verbatim>\<open>abc\<close>, in which it does not occur as a
  substring.
\<close>

theorem name_filter_dot_selects_abc:
  "result_col (apply_step (no_filters\<lparr>nome_busca := ''.''\<rparr>) FNome ex_names) ''Nome Completo'' =
     Inr [Str ''abc''] \<and>
   result_col (nome_filtrado_step ''.'' ex_names) ''Nome Completo'' = Inr [Str ''abc''] \<and>
   \<not> ci_substring ''.'' ''abc''"
  by (simp add: filter_defs nome_filtrado_step_def no_filters_def ex_names_def blank_def
      ci_substring_def sublist_Cons_right)

text \<open>
  On a search text of ordinary characters only (no operator of \<^verbatim>\<open>re\<close>) and a name
  column that is a text column, the step does what the claim says: it returns the rows
  whose name is a string in which the search text occurs as a case-insensitive
  substring, and no row whose name is null.
\<close>

lemma name_filter_plain_text:
  assumes "pat \<noteq> []" and "plain_text pat" and "dtypes t ''Nome Completo'' = Some ObjectT"
    and "nome_busca q = pat"
  shows "\<exists>t'. apply_step q FNome t = Inr t' \<and> nome_filtrado_step pat t = Inr t' \<and>
           dtypes t' = dtypes t \<and>
           rows t' =
             filter (\<lambda>r. case r ''Nome Completo'' of Str s \<Rightarrow> ci_substring pat s | _ \<Rightarrow> False) (rows t) \<and>
           (\<forall>r. r \<in> set (rows t') \<longleftrightarrow>
                r \<in> set (rows t) \<and> (\<exists>s. r ''Nome Completo'' = Str s \<and> ci_substring pat s))"
proof -
  let ?t' = "t\<lparr>rows := filter (\<lambda>r. case r ''Nome Completo'' of Str s \<Rightarrow> ci_substring pat s | _ \<Rightarrow> False)
                         (rows t)\<rparr>"
  have h: "has_col t ''Nome Completo''" using assms(3) by (simp add: has_col_def)
  have c: "contains_rows ''Nome Completo'' pat t = Inr ?t'"
    using assms(2,3) by (rule contains_rows_plain)
  have 1: "apply_step q FNome t = Inr ?t'" using assms(1,4) h c by simp
  have 2: "nome_filtrado_step pat t = Inr ?t'" using assms(1) h c by (simp add: nome_filtrado_step_def)
  have 3: "r \<in> set (rows ?t') \<longleftrightarrow>
            r \<in> set (rows t) \<and> (\<exists>s. r ''Nome Completo'' = Str s \<and> ci_substring pat s)" for r
    by (auto split: cell.splits)
  from 1 2 3 show ?thesis by (intro exI[of _ ?t']) simp
qed

text \<open>On the example, \<^verbatim>\<open>ana\<close> finds Ana Lima and Mariana Sa.\<close>

lemma name_filter_plain_text_example:
  "\<exists>t'. apply_step (no_filters\<lparr>nome_busca := ''ana''\<rparr>) FNome ex_derived = Inr t' \<and>
        nome_filtrado_step ''ana'' ex_derived = Inr t' \<and>
        col_of t' ''Nome Completo'' = [Str ''Ana Lima'', Str ''Mariana Sa'']"
proof -
  have p: "plain_text ''ana''" by (simp add: plain_text_def re_operators_def)
  have d: "dtypes ex_derived ''Nome Completo'' = Some ObjectT" by (simp add: ex_derived_def)
  have n: "nome_busca (no_filters\<lparr>nome_busca := ''ana''\<rparr>) = ''ana''" by simp
  from name_filter_plain_text[OF _ p d n] obtain t' where
    a: "apply_step (no_filters\<lparr>nome_busca := ''ana''\<rparr>) FNome ex_derived = Inr t'"
    and b: "nome_filtrado_step ''ana'' ex_derived = Inr t'"
    by auto
  have "result_col (apply_step (no_filters\<lparr>nome_busca := ''ana''\<rparr>) FNome ex_derived) ''Nome Completo'' =
      Inr [Str ''Ana Lima'', Str ''Mariana Sa'']"
    by (simp add: filter_defs no_filters_def ex_derived_def blank_def)
  with a have "col_of t' ''Nome Completo'' = [Str ''Ana Lima'', Str ''Mariana Sa'']"
    by (simp add: result_col_def)
  with a b show ?thesis by blast
qed

subsection \<open>Active and terminated employees partition the rows\<close>

text \<open>
  Claim C10. In every table \<^verbatim>\<open>prepare_df\<close> returns, the status of every row is
  \<^verbatim>\<open>Ativo\<close> or \<^verbatim>\<open>Desligado\<close>; so the active headcount and the terminated count add
  up to the number of rows, on the table, on every selection of its rows, and on what
  the filter steps return in any order.
\<close>

theorem status_partition:
  assumes "prepare_df env clock t = Inr t'"
  shows "(\<forall>r \<in> set (rows t'). r ''Status'' = Str ''Ativo'' \<or> r ''Status'' = Str ''Desligado'') \<and>
         k_headcount_ativo t' + k_desligados t' = int (length (rows t')) \<and>
         (\<forall>p. k_headcount_ativo (t'\<lparr>rows := filter p (rows t')\<rparr>) +
              k_desligados (t'\<lparr>rows := filter p (rows t')\<rparr>) = int (length (filter p (rows t')))) \<and>
         (\<forall>q ss t''. run_filters q ss t' = Inr t'' \<longrightarrow>
              k_headcount_ativo t'' + k_desligados t'' = int (length (rows t'')))"
proof -
  note st = prepare_df_status[OF assms]
  have sub: "k_headcount_ativo (t'\<lparr>rows := filter p (rows t')\<rparr>) +
             k_desligados (t'\<lparr>rows := filter p (rows t')\<rparr>) = int (length (filter p (rows t')))" for p
    using headcount_partition[of "t'\<lparr>rows := filter p (rows t')\<rparr>"] st
    by (simp add: has_col_def)
  have whole: "k_headcount_ativo t' + k_desligados t' = int (length (rows t'))"
    using st by (rule headcount_partition)
  have flt: "k_headcount_ativo t'' + k_desligados t'' = int (length (rows t''))"
    if "run_filters q ss t' = Inr t''" for q ss t''
    using run_filters_Inr[OF that] sub by simp
  from st(2) whole sub flt show ?thesis by blast
qed

text \<open>On the example: one active and one terminated employee.\<close>

theorem status_partition_witness:
  "\<exists>t'. prepare_df demo_env (2021, 3, 1) ex_staff = Inr t' \<and>
        k_headcount_ativo t' + k_desligados t' = 2 \<and>
        result_col (Inr t') ''Status'' = Inr [Str ''Ativo'', Str ''Desligado'']"
proof -
  obtain t' where p: "prepare_df demo_env (2021, 3, 1) ex_staff = Inr t'"
    using ex_staff_prepared by blast
  have l: "length (rows t') = 2"
    using length_prepare_df[OF p] by (simp add: ex_staff_def)
  have "result_col (prepare_df demo_env (2021, 3, 1) ex_staff) ''Status'' =
          Inr [Str ''Ativo'', Str ''Desligado'']"
    by (simp add: pipeline_defs cell_defs ex_staff_def demo_env_def blank_def)
  with status_partition[OF p] p l show ?thesis by auto
qed

subsection \<open>The KPI functions\<close>

text \<open>
  Claim C6, as amended. The two counts are natural numbers on every table. The payroll
  and the total cost are numbers on every table whose salary, respectively cost,
  column holds numbers or nulls, and that is so on every table \<^verbatim>\<open>prepare_df\<close>
  returns and on every selection of its rows. The average age and the average rating
  are numbers, never NaN, on every table whose age, respectively rating, column holds
  numbers or nulls. Each of the six is 0 on a table without rows and on a table that
  lacks a column the function reads.
\<close>

theorem kpis_defined:
  "(\<exists>n. k_headcount_ativo t = int n) \<and> (\<exists>n. k_desligados t = int n) \<and>
   (numeric_col t ''Salario Base'' \<longrightarrow> (\<exists>v. k_folha t = Inr v)) \<and>
   (numeric_col t ''Custo Total Mensal'' \<longrightarrow> (\<exists>v. k_custo_total t = Inr v)) \<and>
   (numeric_col t ''Idade'' \<longrightarrow> (\<exists>v. k_idade_media t = Inr (Some v))) \<and>
   (numeric_col t col_avaliacao \<longrightarrow> (\<exists>v. k_avaliacao_media t = Inr (Some v))) \<and>
   (rows t = [] \<longrightarrow>
      k_headcount_ativo t = 0 \<and> k_desligados t = 0 \<and> k_folha t = Inr 0 \<and> k_custo_total t = Inr 0 \<and>
      k_idade_media t = Inr (Some 0) \<and> k_avaliacao_media t = Inr (Some 0)) \<and>
   (\<not> has_col t ''Status'' \<longrightarrow>
      k_headcount_ativo t = 0 \<and> k_desligados t = 0 \<and> k_folha t = Inr 0 \<and> k_custo_total t = Inr 0) \<and>
   (\<not> has_col t ''Salario Base'' \<longrightarrow> k_folha t = Inr 0) \<and>
   (\<not> has_col t ''Custo Total Mensal'' \<longrightarrow> k_custo_total t = Inr 0) \<and>
   (\<not> has_col t ''Idade'' \<longrightarrow> k_idade_media t = Inr (Some 0)) \<and>
   (\<not> has_col t col_avaliacao \<longrightarrow> k_avaliacao_media t = Inr (Some 0)) \<and>
   (\<forall>env clock t0 p. prepare_df env clock t0 = Inr t \<longrightarrow>
      (\<exists>v. k_folha (t\<lparr>rows := filter p (rows t)\<rparr>) = Inr v) \<and>
      (\<exists>v. k_custo_total (t\<lparr>rows := filter p (rows t)\<rparr>) = Inr v))"
proof -
  have counts: "(\<exists>n. k_headcount_ativo t = int n) \<and> (\<exists>n. k_desligados t = int n)"
    by (auto simp: k_headcount_ativo_def k_desligados_def intro: exI[of _ 0])
  have sums: "(numeric_col t ''Salario Base'' \<longrightarrow> (\<exists>v. k_folha t = Inr v)) \<and>
     (numeric_col t ''Custo Total Mensal'' \<longrightarrow> (\<exists>v. k_custo_total t = Inr v))"
    using k_sum_defined[of t] by (simp add: k_folha_def k_custo_total_def)
  have means: "(numeric_col t ''Idade'' \<longrightarrow> (\<exists>v. k_idade_media t = Inr (Some v))) \<and>
     (numeric_col t col_avaliacao \<longrightarrow> (\<exists>v. k_avaliacao_media t = Inr (Some v)))"
    using k_mean_defined[of t] by (simp add: k_idade_media_def k_avaliacao_media_def)
  have empty: "rows t = [] \<longrightarrow>
      k_headcount_ativo t = 0 \<and> k_desligados t = 0 \<and> k_folha t = Inr 0 \<and> k_custo_total t = Inr 0 \<and>
      k_idade_media t = Inr (Some 0) \<and> k_avaliacao_media t = Inr (Some 0)"
    by (simp add: k_headcount_ativo_def k_desligados_def k_folha_def k_custo_total_def
        k_idade_media_def k_avaliacao_media_def series_sum_def col_of_def ativos_def dropna_def)
  have missing: "(\<not> has_col t ''Status'' \<longrightarrow>
      k_headcount_ativo t = 0 \<and> k_desligados t = 0 \<and> k_folha t = Inr 0 \<and> k_custo_total t = Inr 0) \<and>
   (\<not> has_col t ''Salario Base'' \<longrightarrow> k_folha t = Inr 0) \<and>
   (\<not> has_col t ''Custo Total Mensal'' \<longrightarrow> k_custo_total t = Inr 0) \<and>
   (\<not> has_col t ''Idade'' \<longrightarrow> k_idade_media t = Inr (Some 0)) \<and>
   (\<not> has_col t col_avaliacao \<longrightarrow> k_avaliacao_media t = Inr (Some 0))"
    by (simp add: k_headcount_ativo_def k_desligados_def k_folha_def k_custo_total_def
        k_idade_media_def k_avaliacao_media_def)
  have derived: "(\<exists>v. k_folha (t\<lparr>rows := filter p (rows t)\<rparr>) = Inr v) \<and>
      (\<exists>v. k_custo_total (t\<lparr>rows := filter p (rows t)\<rparr>) = Inr v)"
    if p: "prepare_df env clock t0 = Inr t" for env clock t0 p
  proof -
    have sb: "numeric_col t ''Salario Base''"
    proof -
      have "''Salario Base'' \<in> set CURRENCY_COLS" by (simp add: CURRENCY_COLS_def)
      from prepare_df_currency_Num[OF p this] show ?thesis
        by (fastforce simp: numeric_col_def numeric_cell_def)
    qed
    have ct: "numeric_col t ''Custo Total Mensal''" using p by (rule prepare_df_custo_numeric)
    from numeric_col_rows[OF sb, of "filter p (rows t)"] numeric_col_rows[OF ct, of "filter p (rows t)"]
    have "numeric_col (t\<lparr>rows := filter p (rows t)\<rparr>) ''Salario Base''"
      and "numeric_col (t\<lparr>rows := filter p (rows t)\<rparr>) ''Custo Total Mensal''"
      by auto
    with k_sum_defined[of "t\<lparr>rows := filter p (rows t)\<rparr>"] show ?thesis
      by (simp add: k_folha_def k_custo_total_def)
  qed
  from counts sums means empty missing derived show ?thesis by blast
qed

text \<open>On the example: two active employees, one terminated, a payroll of 2500, a mean age of 30.\<close>

theorem kpis_defined_witness:
  "k_headcount_ativo ex_derived = 2 \<and> k_desligados ex_derived = 1 \<and>
   k_folha ex_derived = Inr 2500 \<and> k_custo_total ex_derived = Inr 0 \<and>
   k_idade_media ex_derived = Inr (Some 30) \<and> k_avaliacao_media ex_derived = Inr (Some 0) \<and>
   (\<exists>v. k_idade_media ex_derived = Inr (Some v))"
proof -
  have n: "numeric_col ex_derived ''Idade''"
    by (simp add: numeric_col_def numeric_cell_def ex_derived_def blank_def)
  from kpis_defined[of ex_derived] n have "\<exists>v. k_idade_media ex_derived = Inr (Some v)"
    by blast
  moreover have "k_headcount_ativo ex_derived = 2" "k_desligados ex_derived = 1"
    by (simp_all add: k_headcount_ativo_def k_desligados_def has_col_def ex_derived_def blank_def)
  moreover have "k_folha ex_derived = Inr 2500" "k_custo_total ex_derived = Inr 0"
    by (simp_all add: k_folha_def k_custo_total_def series_sum_def ativos_def col_of_def has_col_def
        ex_derived_def blank_def)
  moreover have "k_idade_media ex_derived = Inr (Some 30)" "k_avaliacao_media ex_derived = Inr (Some 0)"
    by (simp_all add: k_idade_media_def k_avaliacao_media_def series_mean_def dropna_def col_of_def
        has_col_def col_avaliacao_def ex_derived_def blank_def)
  ultimately show ?thesis by blast
qed

text \<open>
  Claim C6 as stated fails: the rating column is read as the sheet gives it, and on a
  rating column that holds text the call of \<^verbatim>\<open>mean()\<close> at line 168 raises TypeError,
  so the function returns no value.
\<close>

theorem rating_text_counterexample:
  "k_avaliacao_media ex_rating_text = Inl TypeError"
  by (simp add: k_avaliacao_media_def series_mean_def has_col_def col_of_def dropna_def
      ex_rating_text_def blank_def)

end
